theory Spec2Isabelle
  imports Main "HOL-Library.Word" "HOL-Library.AList"
begin

section \<open>Audio devices as the plugin sees them\<close>

text \<open>
  The types of \<^verbatim>\<open>AudioDevices/AudioDevices.h\<close> that the plugin's sources name. The plugin
  compares a device state with \<^verbatim>\<open>CONNECTED\<close> only and directions and roles with each
  other only; the other constructors stand for the remaining values of each enumeration.
\<close>

datatype AudioDeviceDirection = INPUT | OUTPUT

datatype AudioDeviceRole = DEFAULT | COMMUNICATION

datatype AudioDeviceState = CONNECTED | DISCONNECTED | UNKNOWN

record AudioDeviceInfo =
  dev_id :: string
  interfaceName :: string
  endpointName :: string
  displayName :: string
  dev_direction :: AudioDeviceDirection
  dev_state :: AudioDeviceState

datatype DeviceMatchStrategy = ID | Fuzzy

text \<open>
  The device provider, as one snapshot of the operating system: the three queries the
  plugin makes. \<^verbatim>\<open>GetAudioDeviceList\<close> returns a container of (id, device) pairs that the
  plugin iterates in the container's order and looks up by key.
\<close>

record provider =
  GetAudioDeviceState :: "string \<Rightarrow> AudioDeviceState"
  GetAudioDeviceList :: "AudioDeviceDirection \<Rightarrow> (string \<times> AudioDeviceInfo) list"
  GetDefaultAudioDeviceID :: "AudioDeviceDirection \<Rightarrow> AudioDeviceRole \<Rightarrow> string"

section \<open>ButtonSettings.cpp: volatile device ids\<close>

definition is_digit :: "char \<Rightarrow> bool" where
  "is_digit c = (c \<in> set ''0123456789'')"

text \<open>The characters that \<^verbatim>\<open>.\<close> of an ECMAScript regular expression does not match.\<close>

definition is_line_terminator :: "char \<Rightarrow> bool" where
  "is_line_terminator c = (c = CHR 0x0A \<or> c = CHR 0x0D)"

text \<open>
  \<^verbatim>\<open>std::regex_match(name, captures, "^([0-9]+- )?(.+)$")\<close>, then \<^verbatim>\<open>captures[2]\<close>, or
  \<^verbatim>\<open>name\<close> when the match fails.
  The second group has to cover the rest of the name with at least one character and no
  line terminator, so the match fails exactly on the empty name and on a name holding a
  line terminator. Otherwise the optional first group is tried first: the digits it takes
  are followed by \<^verbatim>\<open>-\<close>, so they are the whole leading run of digits; when nothing is left
  for the second group after \<^verbatim>\<open>"- "\<close> the matcher backtracks, leaves the first group out
  and the second group is the whole name.
\<close>

definition FuzzifyInterface :: "string \<Rightarrow> string" where
  "FuzzifyInterface name =
     (if name = [] \<or> list_ex is_line_terminator name then name
      else
        let digits = takeWhile is_digit name;
            rest = dropWhile is_digit name
        in if digits \<noteq> [] \<and> take 2 rest = ''- '' \<and> drop 2 rest \<noteq> []
           then drop 2 rest
           else name)"

text \<open>The \<^verbatim>\<open>for\<close> loop of \<^verbatim>\<open>GetVolatileID\<close> over the (id, device) pairs of the list.\<close>

fun fuzzy_scan :: "string \<Rightarrow> AudioDeviceInfo \<Rightarrow> (string \<times> AudioDeviceInfo) list \<Rightarrow> string" where
  "fuzzy_scan fuzzyInterface device [] = dev_id device"
| "fuzzy_scan fuzzyInterface device ((otherID, other) # devices) =
     (if dev_state other \<noteq> CONNECTED then fuzzy_scan fuzzyInterface device devices
      else
        let otherFuzzyInterface = FuzzifyInterface (interfaceName other)
        in if fuzzyInterface = otherFuzzyInterface \<and> endpointName device = endpointName other
           then otherID
           else fuzzy_scan fuzzyInterface device devices)"

definition GetVolatileID :: "provider \<Rightarrow> AudioDeviceInfo \<Rightarrow> DeviceMatchStrategy \<Rightarrow> string" where
  "GetVolatileID os device strategy =
     (if dev_id device = [] then []
      else if strategy = ID then dev_id device
      else if GetAudioDeviceState os (dev_id device) = CONNECTED then dev_id device
      else
        let fuzzyInterface = FuzzifyInterface (interfaceName device)
        in fuzzy_scan fuzzyInterface device (GetAudioDeviceList os (dev_direction device)))"

section \<open>JSON values and conversions\<close>

text \<open>
  A JSON value as the plugin reads it. An object is the list of its members, each key
  once, read by key; numbers are integers (no setting of the plugin is a fraction).
\<close>

datatype json =
    JNull
  | JBool bool
  | JNumber int
  | JString string
  | JArray "json list"
  | JObject "(string \<times> json) list"

text \<open>The exceptions that the modelled code can raise.\<close>

datatype error = type_error | out_of_range | invalid_argument

definition bindE :: "error + 'a \<Rightarrow> ('a \<Rightarrow> error + 'b) \<Rightarrow> error + 'b" where
  "bindE r f = (case r of Inl e \<Rightarrow> Inl e | Inr v \<Rightarrow> f v)"

text \<open>\<^verbatim>\<open>j.contains(key)\<close>: false on a value that is not an object.\<close>

definition contains :: "json \<Rightarrow> string \<Rightarrow> bool" where
  "contains j key = (case j of JObject members \<Rightarrow> map_of members key \<noteq> None | _ \<Rightarrow> False)"

text \<open>\<^verbatim>\<open>j.at(key)\<close>: raises on a missing key and on a value that is not an object.\<close>

definition at_key :: "json \<Rightarrow> string \<Rightarrow> error + json" where
  "at_key j key =
     (case j of
        JObject members \<Rightarrow>
          (case map_of members key of Some v \<Rightarrow> Inr v | None \<Rightarrow> Inl out_of_range)
      | _ \<Rightarrow> Inl type_error)"

definition is_string :: "json \<Rightarrow> bool" where
  "is_string j = (case j of JString s \<Rightarrow> True | _ \<Rightarrow> False)"

text \<open>The conversions of a JSON value to \<^verbatim>\<open>bool\<close> and to \<^verbatim>\<open>std::string\<close>.\<close>

definition get_bool :: "json \<Rightarrow> error + bool" where
  "get_bool j = (case j of JBool b \<Rightarrow> Inr b | _ \<Rightarrow> Inl type_error)"

definition get_string :: "json \<Rightarrow> error + string" where
  "get_string j = (case j of JString s \<Rightarrow> Inr s | _ \<Rightarrow> Inl type_error)"

text \<open>
  \<^verbatim>\<open>NLOHMANN_JSON_SERIALIZE_ENUM(DeviceMatchStrategy, ...)\<close>: a value that is none of the
  listed strings reads as the first entry.
\<close>

definition from_json_DeviceMatchStrategy :: "json \<Rightarrow> DeviceMatchStrategy" where
  "from_json_DeviceMatchStrategy j =
     (if j = JString ''ID'' then ID else if j = JString ''Fuzzy'' then Fuzzy else ID)"

definition to_json_DeviceMatchStrategy :: "DeviceMatchStrategy \<Rightarrow> json" where
  "to_json_DeviceMatchStrategy s = (case s of ID \<Rightarrow> JString ''ID'' | Fuzzy \<Rightarrow> JString ''Fuzzy'')"

text \<open>
  The conversions of \<^verbatim>\<open>audio_json.h\<close>, which are not among the sources, as parameters:
  directions, roles and device records from and to JSON, and the default-constructed
  device record.
\<close>

record audio_json =
  direction_from_json :: "json \<Rightarrow> error + AudioDeviceDirection"
  direction_to_json :: "AudioDeviceDirection \<Rightarrow> json"
  role_from_json :: "json \<Rightarrow> error + AudioDeviceRole"
  role_to_json :: "AudioDeviceRole \<Rightarrow> json"
  device_from_json :: "json \<Rightarrow> error + AudioDeviceInfo"
  device_to_json :: "AudioDeviceInfo \<Rightarrow> json"
  default_AudioDeviceInfo :: AudioDeviceInfo

section \<open>ButtonSettings.h and ButtonSettings.cpp: settings and their JSON form\<close>

record HotkeyConfig =
  enabled :: bool
  ctrl :: bool
  alt :: bool
  shift :: bool
  win :: bool
  keyCode :: string

record ButtonSettings =
  direction :: AudioDeviceDirection
  role :: AudioDeviceRole
  primaryDevice :: AudioDeviceInfo
  secondaryDevice :: AudioDeviceInfo
  matchStrategy :: DeviceMatchStrategy
  primaryHotkey :: HotkeyConfig
  secondaryHotkey :: HotkeyConfig

definition default_HotkeyConfig :: HotkeyConfig where
  "default_HotkeyConfig =
     \<lparr>enabled = False, ctrl = False, alt = False, shift = False, win = False, keyCode = ''''\<rparr>"

definition default_ButtonSettings :: "audio_json \<Rightarrow> ButtonSettings" where
  "default_ButtonSettings c =
     \<lparr>direction = INPUT, role = DEFAULT,
      primaryDevice = default_AudioDeviceInfo c, secondaryDevice = default_AudioDeviceInfo c,
      matchStrategy = ID,
      primaryHotkey = default_HotkeyConfig, secondaryHotkey = default_HotkeyConfig\<rparr>"

subsection \<open>\<^verbatim>\<open>from_json(const json&, HotkeyConfig&)\<close>, one definition for each \<^verbatim>\<open>if\<close> block\<close>

definition read_enabled :: "json \<Rightarrow> HotkeyConfig \<Rightarrow> error + HotkeyConfig" where
  "read_enabled j hk =
     (if contains j ''enabled''
      then bindE (bindE (at_key j ''enabled'') get_bool) (\<lambda>b. Inr (hk\<lparr>enabled := b\<rparr>))
      else if contains j ''hotkeyEnabled''
      then bindE (bindE (at_key j ''hotkeyEnabled'') get_bool) (\<lambda>b. Inr (hk\<lparr>enabled := b\<rparr>))
      else Inr hk)"

definition read_ctrl :: "json \<Rightarrow> HotkeyConfig \<Rightarrow> error + HotkeyConfig" where
  "read_ctrl j hk =
     (if contains j ''ctrl''
      then bindE (bindE (at_key j ''ctrl'') get_bool) (\<lambda>b. Inr (hk\<lparr>ctrl := b\<rparr>))
      else if contains j ''hotkeyCtrl''
      then bindE (bindE (at_key j ''hotkeyCtrl'') get_bool) (\<lambda>b. Inr (hk\<lparr>ctrl := b\<rparr>))
      else Inr hk)"

definition read_alt :: "json \<Rightarrow> HotkeyConfig \<Rightarrow> error + HotkeyConfig" where
  "read_alt j hk =
     (if contains j ''alt''
      then bindE (bindE (at_key j ''alt'') get_bool) (\<lambda>b. Inr (hk\<lparr>alt := b\<rparr>))
      else if contains j ''hotkeyAlt''
      then bindE (bindE (at_key j ''hotkeyAlt'') get_bool) (\<lambda>b. Inr (hk\<lparr>alt := b\<rparr>))
      else Inr hk)"

definition read_shift :: "json \<Rightarrow> HotkeyConfig \<Rightarrow> error + HotkeyConfig" where
  "read_shift j hk =
     (if contains j ''shift''
      then bindE (bindE (at_key j ''shift'') get_bool) (\<lambda>b. Inr (hk\<lparr>shift := b\<rparr>))
      else if contains j ''hotkeyShift''
      then bindE (bindE (at_key j ''hotkeyShift'') get_bool) (\<lambda>b. Inr (hk\<lparr>shift := b\<rparr>))
      else Inr hk)"

definition read_win :: "json \<Rightarrow> HotkeyConfig \<Rightarrow> error + HotkeyConfig" where
  "read_win j hk =
     (if contains j ''win''
      then bindE (bindE (at_key j ''win'') get_bool) (\<lambda>b. Inr (hk\<lparr>win := b\<rparr>))
      else if contains j ''hotkeyWin''
      then bindE (bindE (at_key j ''hotkeyWin'') get_bool) (\<lambda>b. Inr (hk\<lparr>win := b\<rparr>))
      else Inr hk)"

definition read_keyCode :: "json \<Rightarrow> HotkeyConfig \<Rightarrow> error + HotkeyConfig" where
  "read_keyCode j hk =
     (if contains j ''keyCode''
      then bindE (bindE (at_key j ''keyCode'') get_string) (\<lambda>s. Inr (hk\<lparr>keyCode := s\<rparr>))
      else if contains j ''hotkeyKey''
      then bindE (bindE (at_key j ''hotkeyKey'') get_string) (\<lambda>s. Inr (hk\<lparr>keyCode := s\<rparr>))
      else Inr hk)"

definition from_json_HotkeyConfig :: "json \<Rightarrow> HotkeyConfig \<Rightarrow> error + HotkeyConfig" where
  "from_json_HotkeyConfig j hk =
     bindE (read_enabled j hk) (\<lambda>hk.
     bindE (read_ctrl j hk) (\<lambda>hk.
     bindE (read_alt j hk) (\<lambda>hk.
     bindE (read_shift j hk) (\<lambda>hk.
     bindE (read_win j hk) (\<lambda>hk.
     read_keyCode j hk)))))"

text \<open>
  The conversion of a JSON value to a \<^verbatim>\<open>HotkeyConfig\<close>, as in
  \<^verbatim>\<open>bs.primaryHotkey = j.at("primaryHotkey")\<close>: \<^verbatim>\<open>from_json\<close> on a default-constructed
  value.
\<close>

definition HotkeyConfig_of_json :: "json \<Rightarrow> error + HotkeyConfig" where
  "HotkeyConfig_of_json j = from_json_HotkeyConfig j default_HotkeyConfig"

definition to_json_HotkeyConfig :: "HotkeyConfig \<Rightarrow> json" where
  "to_json_HotkeyConfig hk =
     JObject
       [(''enabled'', JBool (enabled hk)),
        (''ctrl'', JBool (ctrl hk)),
        (''alt'', JBool (alt hk)),
        (''shift'', JBool (shift hk)),
        (''win'', JBool (win hk)),
        (''keyCode'', JString (keyCode hk))]"

subsection \<open>\<^verbatim>\<open>from_json(const json&, ButtonSettings&)\<close>, one definition for each block\<close>

definition read_direction :: "audio_json \<Rightarrow> json \<Rightarrow> ButtonSettings \<Rightarrow> error + ButtonSettings" where
  "read_direction c j bs =
     bindE (bindE (at_key j ''direction'') (direction_from_json c))
       (\<lambda>d. Inr (bs\<lparr>direction := d\<rparr>))"

definition read_role :: "audio_json \<Rightarrow> json \<Rightarrow> ButtonSettings \<Rightarrow> error + ButtonSettings" where
  "read_role c j bs =
     (if contains j ''role''
      then bindE (bindE (at_key j ''role'') (role_from_json c)) (\<lambda>r. Inr (bs\<lparr>role := r\<rparr>))
      else Inr bs)"

definition read_primary :: "audio_json \<Rightarrow> json \<Rightarrow> ButtonSettings \<Rightarrow> error + ButtonSettings" where
  "read_primary c j bs =
     (if contains j ''primary''
      then bindE (at_key j ''primary'') (\<lambda>primary.
             if is_string primary
             then bindE (get_string primary)
                    (\<lambda>s. Inr (bs\<lparr>primaryDevice := (primaryDevice bs)\<lparr>dev_id := s\<rparr>\<rparr>))
             else bindE (device_from_json c primary) (\<lambda>d. Inr (bs\<lparr>primaryDevice := d\<rparr>)))
      else Inr bs)"

definition read_secondary :: "audio_json \<Rightarrow> json \<Rightarrow> ButtonSettings \<Rightarrow> error + ButtonSettings" where
  "read_secondary c j bs =
     (if contains j ''secondary''
      then bindE (at_key j ''secondary'') (\<lambda>secondary.
             if is_string secondary
             then bindE (get_string secondary)
                    (\<lambda>s. Inr (bs\<lparr>secondaryDevice := (secondaryDevice bs)\<lparr>dev_id := s\<rparr>\<rparr>))
             else bindE (device_from_json c secondary) (\<lambda>d. Inr (bs\<lparr>secondaryDevice := d\<rparr>)))
      else Inr bs)"

definition read_matchStrategy :: "json \<Rightarrow> ButtonSettings \<Rightarrow> error + ButtonSettings" where
  "read_matchStrategy j bs =
     (if contains j ''matchStrategy''
      then bindE (at_key j ''matchStrategy'')
             (\<lambda>v. Inr (bs\<lparr>matchStrategy := from_json_DeviceMatchStrategy v\<rparr>))
      else Inr bs)"

definition read_primaryHotkey :: "json \<Rightarrow> ButtonSettings \<Rightarrow> error + ButtonSettings" where
  "read_primaryHotkey j bs =
     (if contains j ''primaryHotkey''
      then bindE (bindE (at_key j ''primaryHotkey'') HotkeyConfig_of_json)
             (\<lambda>hk. Inr (bs\<lparr>primaryHotkey := hk\<rparr>))
      else if contains j ''hotkey''
      then bindE (bindE (at_key j ''hotkey'') HotkeyConfig_of_json)
             (\<lambda>hk. Inr (bs\<lparr>primaryHotkey := hk\<rparr>))
      else Inr bs)"

definition read_secondaryHotkey :: "json \<Rightarrow> ButtonSettings \<Rightarrow> error + ButtonSettings" where
  "read_secondaryHotkey j bs =
     (if contains j ''secondaryHotkey''
      then bindE (bindE (at_key j ''secondaryHotkey'') HotkeyConfig_of_json)
             (\<lambda>hk. Inr (bs\<lparr>secondaryHotkey := hk\<rparr>))
      else Inr bs)"

definition from_json_ButtonSettings :: "audio_json \<Rightarrow> json \<Rightarrow> ButtonSettings \<Rightarrow> error + ButtonSettings" where
  "from_json_ButtonSettings c j bs =
     (if \<not> contains j ''direction'' then Inr bs
      else
        bindE (read_direction c j bs) (\<lambda>bs.
        bindE (read_role c j bs) (\<lambda>bs.
        bindE (read_primary c j bs) (\<lambda>bs.
        bindE (read_secondary c j bs) (\<lambda>bs.
        bindE (read_matchStrategy j bs) (\<lambda>bs.
        bindE (read_primaryHotkey j bs) (\<lambda>bs.
        read_secondaryHotkey j bs)))))))"

text \<open>
  The conversion of a JSON value to a \<^verbatim>\<open>ButtonSettings\<close>, as in
  \<^verbatim>\<open>settings = inPayload.at("settings")\<close>: \<^verbatim>\<open>from_json\<close> on a default-constructed value.
\<close>

definition ButtonSettings_of_json :: "audio_json \<Rightarrow> json \<Rightarrow> error + ButtonSettings" where
  "ButtonSettings_of_json c j = from_json_ButtonSettings c j (default_ButtonSettings c)"

definition to_json_ButtonSettings :: "audio_json \<Rightarrow> ButtonSettings \<Rightarrow> json" where
  "to_json_ButtonSettings c bs =
     JObject
       [(''direction'', direction_to_json c (direction bs)),
        (''role'', role_to_json c (role bs)),
        (''primary'', device_to_json c (primaryDevice bs)),
        (''secondary'', device_to_json c (secondaryDevice bs)),
        (''matchStrategy'', to_json_DeviceMatchStrategy (matchStrategy bs)),
        (''primaryHotkey'', to_json_HotkeyConfig (primaryHotkey bs)),
        (''secondaryHotkey'', to_json_HotkeyConfig (secondaryHotkey bs))]"

definition VolatilePrimaryID :: "provider \<Rightarrow> ButtonSettings \<Rightarrow> string" where
  "VolatilePrimaryID os bs = GetVolatileID os (primaryDevice bs) (matchStrategy bs)"

definition VolatileSecondaryID :: "provider \<Rightarrow> ButtonSettings \<Rightarrow> string" where
  "VolatileSecondaryID os bs = GetVolatileID os (secondaryDevice bs) (matchStrategy bs)"

section \<open>AudioSwitcherStreamDeckPlugin.cpp: injecting a hotkey\<close>

text \<open>
  \<^verbatim>\<open>std::stoi\<close>: leading white space, an optional sign, then decimal digits; no digit
  raises \<^verbatim>\<open>std::invalid_argument\<close>, a value outside \<^verbatim>\<open>int\<close> raises
  \<^verbatim>\<open>std::out_of_range\<close>. Characters after the digits are ignored.
\<close>

definition is_space :: "char \<Rightarrow> bool" where
  "is_space c = (c \<in> set [CHR '' '', CHR 0x09, CHR 0x0A, CHR 0x0B, CHR 0x0C, CHR 0x0D])"

definition digits_value :: "string \<Rightarrow> int" where
  "digits_value ds = foldl (\<lambda>acc c. 10 * acc + (of_char c - 48)) 0 ds"

definition stoi :: "string \<Rightarrow> error + int" where
  "stoi str =
     (let unspaced = dropWhile is_space str;
          negative = (take 1 unspaced = ''-'');
          unsigned = (if take 1 unspaced = ''-'' \<or> take 1 unspaced = ''+''
                      then drop 1 unspaced else unspaced);
          digits = takeWhile is_digit unsigned;
          v = (if negative then - digits_value digits else digits_value digits)
      in if digits = [] then Inl invalid_argument
         else if v < - (2 ^ 31) \<or> 2 ^ 31 - 1 < v then Inl out_of_range
         else Inr v)"

datatype platform = WIN32 | APPLE | OTHER

text \<open>One keyboard \<^verbatim>\<open>INPUT\<close> of \<^verbatim>\<open>SendInput\<close>: the virtual key and the flags.\<close>

record INPUT =
  wVk :: "16 word"
  dwFlags :: "32 word"

text \<open>One posted \<^verbatim>\<open>CGEvent\<close>: the key code, key down or up, and the modifier flags.\<close>

record CGEvent =
  cg_keyCode :: "16 word"
  cg_keyDown :: bool
  cg_flags :: "64 word"

text \<open>What the plugin sends to the Stream Deck host and to the operating system.\<close>

datatype effect =
    SetState int string
  | ShowAlertForContext string
  | SetSettings json string
  | SetDefaultAudioDeviceID AudioDeviceDirection AudioDeviceRole string
  | SendInput "INPUT list"
  | CGEventPost CGEvent

text \<open>
  Everything outside the plugin's sources that its code calls: the device provider, the
  conversions of \<^verbatim>\<open>audio_json.h\<close>, \<^verbatim>\<open>EPLJSONUtils::GetIntByName\<close> of the Stream Deck
  SDK, the platform the plugin was built for, and \<^verbatim>\<open>VkKeyScanA\<close> of Windows.
\<close>

record world =
  audio_os :: provider
  codec :: audio_json
  GetIntByName :: "json \<Rightarrow> string \<Rightarrow> int"
  built_for :: platform
  VkKeyScanA :: "char \<Rightarrow> 16 word"

definition LOBYTE :: "16 word \<Rightarrow> 16 word" where
  "LOBYTE v = and v 0xFF"

definition VK_CONTROL :: "16 word" where "VK_CONTROL = 0x11"
definition VK_MENU :: "16 word" where "VK_MENU = 0x12"
definition VK_SHIFT :: "16 word" where "VK_SHIFT = 0x10"
definition VK_LWIN :: "16 word" where "VK_LWIN = 0x5B"
definition VK_F1 :: "16 word" where "VK_F1 = 0x70"
definition VK_SPACE :: "16 word" where "VK_SPACE = 0x20"
definition VK_RETURN :: "16 word" where "VK_RETURN = 0x0D"
definition VK_ESCAPE :: "16 word" where "VK_ESCAPE = 0x1B"
definition VK_TAB :: "16 word" where "VK_TAB = 0x09"
definition KEYEVENTF_KEYUP :: "32 word" where "KEYEVENTF_KEYUP = 0x0002"

text \<open>
  The Windows branch, from the key name to \<^verbatim>\<open>vkCode\<close>. In the last branch the name has
  at least two characters (a one-character name took the first branch): the \<^verbatim>\<open>switch\<close>
  over its first character.
\<close>

definition win_vkCode :: "world \<Rightarrow> string \<Rightarrow> 16 word" where
  "win_vkCode w name =
     (if length name = 1 then
        (let scanCode = VkKeyScanA w (hd name)
         in if scanCode \<noteq> - 1 then LOBYTE scanCode else 0)
      else if take 1 name = ''F'' \<and> length name \<le> 3 then
        (case stoi (drop 1 name) of
           Inl e \<Rightarrow> 0
         | Inr fKey \<Rightarrow> if 1 \<le> fKey \<and> fKey \<le> 24 then VK_F1 + word_of_int (fKey - 1) else 0)
      else if name = ''SPACE'' then VK_SPACE
      else if name = ''ENTER'' \<or> name = ''RETURN'' then VK_RETURN
      else if name = ''ESCAPE'' \<or> name = ''ESC'' then VK_ESCAPE
      else if name = ''TAB'' then VK_TAB
      else
        (case name of
           [] \<Rightarrow> 0
         | key # others \<Rightarrow>
             if key \<in> set ''ABCDEFGHIJKLMNOPQRSTUVWXYZ0123456789'' then of_char key else 0))"

text \<open>
  The modifiers pressed, in the order of the code; then the key; then the releases: the
  key first, the modifiers in reverse order.
\<close>

definition win_modifiers :: "HotkeyConfig \<Rightarrow> 16 word list" where
  "win_modifiers hotkey =
     (if ctrl hotkey then [VK_CONTROL] else [])
     @ (if alt hotkey then [VK_MENU] else [])
     @ (if shift hotkey then [VK_SHIFT] else [])
     @ (if win hotkey then [VK_LWIN] else [])"

definition win_inputs :: "HotkeyConfig \<Rightarrow> 16 word \<Rightarrow> INPUT list" where
  "win_inputs hotkey vkCode =
     (let pressed = map (\<lambda>v. \<lparr>wVk = v, dwFlags = 0\<rparr>) (win_modifiers hotkey @ [LOBYTE vkCode])
      in pressed @ map (\<lambda>i. i\<lparr>dwFlags := KEYEVENTF_KEYUP\<rparr>) (rev pressed))"

text \<open>The macOS branch, from the key name to \<^verbatim>\<open>keyCode\<close>; \<^verbatim>\<open>std::stoi\<close> is not guarded here.\<close>

definition fKeyCodes :: "16 word list" where
  "fKeyCodes = [0x7A, 0x78, 0x63, 0x76, 0x60, 0x61, 0x62, 0x64, 0x65, 0x6D, 0x67, 0x6F]"

definition mac_keyCode :: "string \<Rightarrow> error + 16 word" where
  "mac_keyCode name =
     (if length name = 1 then
        (let key = hd name
         in if key \<in> set ''ABCDEFGHIJKLMNOPQRSTUVWXYZ'' then Inr (of_char key - of_char CHR ''A'')
            else Inr 0)
      else if take 1 name = ''F'' \<and> length name \<le> 3 then
        bindE (stoi (drop 1 name))
          (\<lambda>fKey. if 1 \<le> fKey \<and> fKey \<le> 12 then Inr (fKeyCodes ! nat (fKey - 1)) else Inr 0)
      else Inr 0)"

definition kCGEventFlagMaskControl :: "64 word" where "kCGEventFlagMaskControl = 0x40000"
definition kCGEventFlagMaskAlternate :: "64 word" where "kCGEventFlagMaskAlternate = 0x80000"
definition kCGEventFlagMaskShift :: "64 word" where "kCGEventFlagMaskShift = 0x20000"
definition kCGEventFlagMaskCommand :: "64 word" where "kCGEventFlagMaskCommand = 0x100000"

definition mac_flags :: "HotkeyConfig \<Rightarrow> 64 word" where
  "mac_flags hotkey =
     or (or (or (if ctrl hotkey then kCGEventFlagMaskControl else 0)
                (if alt hotkey then kCGEventFlagMaskAlternate else 0))
            (if shift hotkey then kCGEventFlagMaskShift else 0))
        (if win hotkey then kCGEventFlagMaskCommand else 0)"

text \<open>
  \<^verbatim>\<open>TriggerHotkey\<close>: the effects of the call, or the exception that leaves it. A build for
  neither platform has an empty body after the guard.
\<close>

definition TriggerHotkey :: "world \<Rightarrow> HotkeyConfig \<Rightarrow> error + effect list" where
  "TriggerHotkey w hotkey =
     (if \<not> enabled hotkey \<or> keyCode hotkey = [] then Inr []
      else
        case built_for w of
          WIN32 \<Rightarrow>
            (let vkCode = win_vkCode w (keyCode hotkey)
             in if vkCode \<noteq> 0 then Inr [SendInput (win_inputs hotkey vkCode)] else Inr [])
        | APPLE \<Rightarrow>
            bindE (mac_keyCode (keyCode hotkey))
              (\<lambda>keyCode.
                 if keyCode \<noteq> 0
                 then Inr [CGEventPost \<lparr>cg_keyCode = keyCode, cg_keyDown = True, cg_flags = mac_flags hotkey\<rparr>,
                           CGEventPost \<lparr>cg_keyCode = keyCode, cg_keyDown = False, cg_flags = mac_flags hotkey\<rparr>]
                 else Inr [])
        | OTHER \<Rightarrow> Inr [])"

section \<open>AudioSwitcherStreamDeckPlugin.cpp: the buttons\<close>

definition SET_ACTION_ID :: string where
  "SET_ACTION_ID = ''com.fredemmott.audiooutputswitch.set''"

definition TOGGLE_ACTION_ID :: string where
  "TOGGLE_ACTION_ID = ''com.fredemmott.audiooutputswitch.toggle''"

text \<open>
  A registered button and the plugin's members. \<^verbatim>\<open>mButtons\<close> is the container of buttons
  by context, as the list of its entries; a key occurs once, and the order of the list
  stands for the order in which the container is iterated.
\<close>

record Button =
  action :: string
  contextID :: string
  settings :: ButtonSettings

record plugin =
  mVisibleContexts :: "string set"
  mButtons :: "(string \<times> Button) list"

definition default_Button :: "audio_json \<Rightarrow> Button" where
  "default_Button c = \<lparr>action = '''', contextID = '''', settings = default_ButtonSettings c\<rparr>"

text \<open>\<^verbatim>\<open>mButtons[context]\<close>: the entry, inserted default-constructed when the key is new.\<close>

definition button_at :: "world \<Rightarrow> plugin \<Rightarrow> string \<Rightarrow> Button" where
  "button_at w p context =
     (case map_of (mButtons p) context of Some b \<Rightarrow> b | None \<Rightarrow> default_Button (codec w))"

definition touch_button :: "world \<Rightarrow> string \<Rightarrow> plugin \<Rightarrow> plugin" where
  "touch_button w context p =
     p\<lparr>mButtons := AList.update context (button_at w p context) (mButtons p)\<rparr>"

definition store_button :: "string \<Rightarrow> Button \<Rightarrow> plugin \<Rightarrow> plugin" where
  "store_button context b p = p\<lparr>mButtons := AList.update context b (mButtons p)\<rparr>"

text \<open>How a handler ends: it returns, or an exception leaves it.\<close>

datatype outcome =
    Returned plugin "effect list"
  | Raised error plugin "effect list"

definition FillAudioDeviceInfo :: "provider \<Rightarrow> AudioDeviceInfo \<Rightarrow> bool \<times> AudioDeviceInfo" where
  "FillAudioDeviceInfo os di =
     (if dev_id di = [] then (False, di)
      else if displayName di \<noteq> [] then (False, di)
      else
        let devices = GetAudioDeviceList os (dev_direction di)
        in case map_of devices (dev_id di) of
             None \<Rightarrow> (False, di)
           | Some live \<Rightarrow> (True, live))"

definition FillButtonDeviceInfo :: "world \<Rightarrow> string \<Rightarrow> plugin \<Rightarrow> outcome" where
  "FillButtonDeviceInfo w context p =
     (case map_of (mButtons p) context of
        None \<Rightarrow> Raised out_of_range p []
      | Some button \<Rightarrow>
          let (filledPrimary, primary) = FillAudioDeviceInfo (audio_os w) (primaryDevice (settings button));
              (filledSecondary, secondary) = FillAudioDeviceInfo (audio_os w) (secondaryDevice (settings button));
              filled = (settings button)\<lparr>primaryDevice := primary, secondaryDevice := secondary\<rparr>;
              p' = store_button context (button\<lparr>settings := filled\<rparr>) p
          in if filledPrimary \<or> filledSecondary
             then Returned p' [SetSettings (to_json_ButtonSettings (codec w) filled) context]
             else Returned p' [])"

definition UpdateState :: "world \<Rightarrow> string \<Rightarrow> string \<Rightarrow> plugin \<Rightarrow> plugin \<times> effect list" where
  "UpdateState w context optionalDefaultDevice p =
     (let button = button_at w p context;
          p' = touch_button w context p;
          activeDevice = (if optionalDefaultDevice = []
                          then GetDefaultAudioDeviceID (audio_os w) (direction (settings button)) (role (settings button))
                          else optionalDefaultDevice);
          primaryID = VolatilePrimaryID (audio_os w) (settings button);
          secondaryID = VolatileSecondaryID (audio_os w) (settings button)
      in if action button = SET_ACTION_ID
         then (p', [SetState (if activeDevice = primaryID then 0 else 1) context])
         else if activeDevice = primaryID then (p', [SetState 0 context])
         else if activeDevice = secondaryID then (p', [SetState 1 context])
         else (p', [ShowAlertForContext context]))"

text \<open>The loop of \<^verbatim>\<open>OnDefaultDeviceChanged\<close> over the entries of \<^verbatim>\<open>mButtons\<close>.\<close>

fun notify_buttons ::
  "world \<Rightarrow> AudioDeviceDirection \<Rightarrow> AudioDeviceRole \<Rightarrow> string \<Rightarrow> (string \<times> Button) list
   \<Rightarrow> plugin \<Rightarrow> plugin \<times> effect list" where
  "notify_buttons w d r device [] p = (p, [])"
| "notify_buttons w d r device ((context, button) # entries) p =
     (if direction (settings button) \<noteq> d then notify_buttons w d r device entries p
      else if role (settings button) \<noteq> r then notify_buttons w d r device entries p
      else
        let (p', sent) = UpdateState w context device p;
            (p'', sent') = notify_buttons w d r device entries p'
        in (p'', sent @ sent'))"

definition OnDefaultDeviceChanged ::
  "world \<Rightarrow> AudioDeviceDirection \<Rightarrow> AudioDeviceRole \<Rightarrow> string \<Rightarrow> plugin \<Rightarrow> plugin \<times> effect list" where
  "OnDefaultDeviceChanged w d r device p = notify_buttons w d r device (mButtons p) p"

definition KeyDownForAction :: "world \<Rightarrow> string \<Rightarrow> string \<Rightarrow> json \<Rightarrow> string \<Rightarrow> plugin \<Rightarrow> outcome" where
  "KeyDownForAction w inAction inContext inPayload inDeviceID p =
     (let state = GetIntByName w inPayload ''state'' in Returned p [])"

text \<open>
  \<^verbatim>\<open>KeyUpForAction\<close>, after the test for \<^verbatim>\<open>"settings"\<close>: the settings are decoded into the
  button's entry and backfilled.
\<close>

definition KeyUp_settings :: "world \<Rightarrow> string \<Rightarrow> json \<Rightarrow> plugin \<Rightarrow> outcome" where
  "KeyUp_settings w inContext inPayload p =
     (let p1 = touch_button w inContext p
      in case bindE (at_key inPayload ''settings'') (ButtonSettings_of_json (codec w)) of
           Inl e \<Rightarrow> Raised e p1 []
         | Inr decoded \<Rightarrow>
             FillButtonDeviceInfo w inContext
               (store_button inContext ((button_at w p1 inContext)\<lparr>settings := decoded\<rparr>) p1))"

text \<open>
  \<^verbatim>\<open>KeyUpForAction\<close> from the read of \<^verbatim>\<open>"state"\<close> on; \<^verbatim>\<open>sent\<close> is what the backfill has
  sent, \<^verbatim>\<open>settings\<close> the button's entry after it.
\<close>

definition KeyUp_switch :: "world \<Rightarrow> string \<Rightarrow> string \<Rightarrow> json \<Rightarrow> plugin \<Rightarrow> effect list \<Rightarrow> outcome" where
  "KeyUp_switch w inAction inContext inPayload p sent =
     (let settings = settings (button_at w p inContext);
          state = GetIntByName w inPayload ''state'';
          deviceID = (if state \<noteq> 0 \<or> inAction = SET_ACTION_ID
                      then VolatilePrimaryID (audio_os w) settings
                      else VolatileSecondaryID (audio_os w) settings)
      in if deviceID = [] then Returned p sent
         else
           let deviceState = GetAudioDeviceState (audio_os w) deviceID
           in if deviceState \<noteq> CONNECTED then
                Returned p
                  (sent @ (if inAction = SET_ACTION_ID then [SetState 1 inContext] else [])
                   @ [ShowAlertForContext inContext])
              else if inAction = SET_ACTION_ID
                      \<and> deviceID = GetDefaultAudioDeviceID (audio_os w) (direction settings) (role settings)
              then Returned p (sent @ [SetState state inContext])
              else
                let sent' = sent @ [SetDefaultAudioDeviceID (direction settings) (role settings) deviceID];
                    hotkeyToUse = (if state \<noteq> 0 \<or> inAction = SET_ACTION_ID
                                   then primaryHotkey settings
                                   else secondaryHotkey settings)
                in if enabled hotkeyToUse \<and> keyCode hotkeyToUse \<noteq> [] then
                     (case TriggerHotkey w hotkeyToUse of
                        Inl e \<Rightarrow> Raised e p sent'
                      | Inr keys \<Rightarrow> Returned p (sent' @ keys))
                   else Returned p sent')"

definition KeyUpForAction :: "world \<Rightarrow> string \<Rightarrow> string \<Rightarrow> json \<Rightarrow> string \<Rightarrow> plugin \<Rightarrow> outcome" where
  "KeyUpForAction w inAction inContext inPayload inDeviceID p =
     (if \<not> contains inPayload ''settings'' then Returned p []
      else
        case KeyUp_settings w inContext inPayload p of
          Raised e p' sent \<Rightarrow> Raised e p' sent
        | Returned p' sent \<Rightarrow> KeyUp_switch w inAction inContext inPayload p' sent)"

definition WillAppearForAction :: "world \<Rightarrow> string \<Rightarrow> string \<Rightarrow> json \<Rightarrow> string \<Rightarrow> plugin \<Rightarrow> outcome" where
  "WillAppearForAction w inAction inContext inPayload inDeviceID p =
     (let p1 = p\<lparr>mVisibleContexts := insert inContext (mVisibleContexts p)\<rparr>;
          p2 = store_button inContext
                 \<lparr>action = inAction, contextID = inContext, settings = default_ButtonSettings (codec w)\<rparr> p1
      in if \<not> contains inPayload ''settings'' then Returned p2 []
         else
           case bindE (at_key inPayload ''settings'') (ButtonSettings_of_json (codec w)) of
             Inl e \<Rightarrow> Raised e p2 []
           | Inr decoded \<Rightarrow>
               let p3 = store_button inContext ((button_at w p2 inContext)\<lparr>settings := decoded\<rparr>) p2;
                   (p4, sent) = UpdateState w inContext [] p3
               in case FillButtonDeviceInfo w inContext p4 of
                    Raised e p5 sent' \<Rightarrow> Raised e p5 (sent @ sent')
                  | Returned p5 sent' \<Rightarrow> Returned p5 (sent @ sent'))"

definition WillDisappearForAction :: "world \<Rightarrow> string \<Rightarrow> string \<Rightarrow> json \<Rightarrow> string \<Rightarrow> plugin \<Rightarrow> outcome" where
  "WillDisappearForAction w inAction inContext inPayload inDeviceID p =
     Returned
       (p\<lparr>mVisibleContexts := mVisibleContexts p - {inContext},
          mButtons := AList.delete inContext (mButtons p)\<rparr>) []"

definition DidReceiveSettings :: "world \<Rightarrow> string \<Rightarrow> string \<Rightarrow> json \<Rightarrow> string \<Rightarrow> plugin \<Rightarrow> outcome" where
  "DidReceiveSettings w inAction inContext inPayload inDeviceID p =
     WillAppearForAction w inAction inContext inPayload inDeviceID p"

section \<open>Fuzzy resolution in the specification's words\<close>

text \<open>
  The normalisation in the specification's words: an optional leading prefix
  \<^verbatim>\<open><digits>- \<close> is stripped, whatever follows it.
\<close>

definition strip_ordinal_prefix :: "string \<Rightarrow> string" where
  "strip_ordinal_prefix name =
     (let digits = takeWhile is_digit name;
          rest = dropWhile is_digit name
      in if digits \<noteq> [] \<and> take 2 rest = ''- '' then drop 2 rest else name)"

text \<open>
  The same, kept back where the code keeps it back: the prefix stays when nothing follows
  it and when the name holds a line terminator.
\<close>

definition strip_ordinal_prefix_of_name :: "string \<Rightarrow> string" where
  "strip_ordinal_prefix_of_name name =
     (if strip_ordinal_prefix name = [] \<or> list_ex is_line_terminator name then name
      else strip_ordinal_prefix name)"

text \<open>
  Resolution under the Fuzzy strategy in the specification's words, for a descriptor with
  a non-empty id, over the provider's list for the descriptor's direction; the
  normalisation is a parameter.
\<close>

definition fuzzy_candidate :: "(string \<Rightarrow> string) \<Rightarrow> AudioDeviceInfo \<Rightarrow> AudioDeviceInfo \<Rightarrow> bool" where
  "fuzzy_candidate normalise descriptor live =
     (dev_state live = CONNECTED
      \<and> dev_direction live = dev_direction descriptor
      \<and> normalise (interfaceName live) = normalise (interfaceName descriptor)
      \<and> endpointName live = endpointName descriptor)"

definition resolve_fuzzy :: "(string \<Rightarrow> string) \<Rightarrow> provider \<Rightarrow> AudioDeviceInfo \<Rightarrow> string" where
  "resolve_fuzzy normalise os descriptor =
     (if GetAudioDeviceState os (dev_id descriptor) = CONNECTED then dev_id descriptor
      else
        case find (fuzzy_candidate normalise descriptor)
               (map snd (GetAudioDeviceList os (dev_direction descriptor))) of
          Some live \<Rightarrow> dev_id live
        | None \<Rightarrow> dev_id descriptor)"

text \<open>
  What the plugin relies on from the provider: the list for a direction holds devices of
  that direction, each under its own id.
\<close>

definition listed_by_id :: "provider \<Rightarrow> AudioDeviceDirection \<Rightarrow> bool" where
  "listed_by_id os d =
     list_all (\<lambda>(k, live). k = dev_id live \<and> dev_direction live = d) (GetAudioDeviceList os d)"

definition headset_descriptor :: AudioDeviceInfo where
  "headset_descriptor =
     \<lparr>dev_id = ''A'', interfaceName = ''3- Headset'', endpointName = ''Speakers'',
      displayName = ''Headset (Speakers)'', dev_direction = OUTPUT, dev_state = DISCONNECTED\<rparr>"

definition headset_live :: AudioDeviceInfo where
  "headset_live =
     \<lparr>dev_id = ''B'', interfaceName = ''Headset'', endpointName = ''Speakers'',
      displayName = ''Headset (Speakers)'', dev_direction = OUTPUT, dev_state = CONNECTED\<rparr>"

definition headset_os :: provider where
  "headset_os =
     \<lparr>GetAudioDeviceState = (\<lambda>i. if i = ''B'' then CONNECTED else DISCONNECTED),
      GetAudioDeviceList = (\<lambda>d. if d = OUTPUT then [(''B'', headset_live)] else []),
      GetDefaultAudioDeviceID = (\<lambda>d r. '''')\<rparr>"

text \<open>A descriptor whose interface name is an ordinal prefix and nothing else.\<close>

definition bare_prefix_descriptor :: AudioDeviceInfo where
  "bare_prefix_descriptor =
     \<lparr>dev_id = ''A'', interfaceName = ''3- '', endpointName = ''Speakers'',
      displayName = ''Speakers'', dev_direction = OUTPUT, dev_state = DISCONNECTED\<rparr>"

definition unnamed_live :: AudioDeviceInfo where
  "unnamed_live =
     \<lparr>dev_id = ''B'', interfaceName = '''', endpointName = ''Speakers'',
      displayName = ''Speakers'', dev_direction = OUTPUT, dev_state = CONNECTED\<rparr>"

definition unnamed_os :: provider where
  "unnamed_os =
     \<lparr>GetAudioDeviceState = (\<lambda>i. if i = ''B'' then CONNECTED else DISCONNECTED),
      GetAudioDeviceList = (\<lambda>d. if d = OUTPUT then [(''B'', unnamed_live)] else []),
      GetDefaultAudioDeviceID = (\<lambda>d r. '''')\<rparr>"

section \<open>A concrete world for the examples\<close>

text \<open>
  Modelled from the spec: \<^verbatim>\<open>audio_json.h\<close> is not among the sources. A device descriptor
  is written as the object of its fields (section 3 of the specification) and read field
  by field; directions, roles and states are written as strings and read the way
  \<^verbatim>\<open>DeviceMatchStrategy\<close> is, an unlisted value reading as the first entry.
\<close>

definition sample_direction_from_json :: "json \<Rightarrow> error + AudioDeviceDirection" where
  "sample_direction_from_json j = Inr (if j = JString ''output'' then OUTPUT else INPUT)"

definition sample_direction_to_json :: "AudioDeviceDirection \<Rightarrow> json" where
  "sample_direction_to_json d = (case d of INPUT \<Rightarrow> JString ''input'' | OUTPUT \<Rightarrow> JString ''output'')"

definition sample_role_from_json :: "json \<Rightarrow> error + AudioDeviceRole" where
  "sample_role_from_json j = Inr (if j = JString ''communication'' then COMMUNICATION else DEFAULT)"

definition sample_role_to_json :: "AudioDeviceRole \<Rightarrow> json" where
  "sample_role_to_json r =
     (case r of DEFAULT \<Rightarrow> JString ''default'' | COMMUNICATION \<Rightarrow> JString ''communication'')"

definition sample_state_from_json :: "json \<Rightarrow> AudioDeviceState" where
  "sample_state_from_json j =
     (if j = JString ''disconnected'' then DISCONNECTED
      else if j = JString ''unknown'' then UNKNOWN else CONNECTED)"

definition sample_state_to_json :: "AudioDeviceState \<Rightarrow> json" where
  "sample_state_to_json s =
     (case s of CONNECTED \<Rightarrow> JString ''connected'' | DISCONNECTED \<Rightarrow> JString ''disconnected''
      | UNKNOWN \<Rightarrow> JString ''unknown'')"

definition sample_device_from_json :: "json \<Rightarrow> error + AudioDeviceInfo" where
  "sample_device_from_json j =
     bindE (bindE (at_key j ''id'') get_string) (\<lambda>i.
     bindE (bindE (at_key j ''interfaceName'') get_string) (\<lambda>iface.
     bindE (bindE (at_key j ''endpointName'') get_string) (\<lambda>endpoint.
     bindE (bindE (at_key j ''displayName'') get_string) (\<lambda>display.
     bindE (bindE (at_key j ''direction'') sample_direction_from_json) (\<lambda>d.
     bindE (at_key j ''state'') (\<lambda>s.
       Inr \<lparr>dev_id = i, interfaceName = iface, endpointName = endpoint, displayName = display,
            dev_direction = d, dev_state = sample_state_from_json s\<rparr>))))))"

definition sample_device_to_json :: "AudioDeviceInfo \<Rightarrow> json" where
  "sample_device_to_json d =
     JObject
       [(''id'', JString (dev_id d)),
        (''interfaceName'', JString (interfaceName d)),
        (''endpointName'', JString (endpointName d)),
        (''displayName'', JString (displayName d)),
        (''direction'', sample_direction_to_json (dev_direction d)),
        (''state'', sample_state_to_json (dev_state d))]"

definition sample_codec :: audio_json where
  "sample_codec =
     \<lparr>direction_from_json = sample_direction_from_json,
      direction_to_json = sample_direction_to_json,
      role_from_json = sample_role_from_json,
      role_to_json = sample_role_to_json,
      device_from_json = sample_device_from_json,
      device_to_json = sample_device_to_json,
      default_AudioDeviceInfo =
        \<lparr>dev_id = '''', interfaceName = '''', endpointName = '''', displayName = '''',
         dev_direction = INPUT, dev_state = UNKNOWN\<rparr>\<rparr>"

text \<open>
  \<^verbatim>\<open>GetIntByName\<close> of the SDK: the integer under the name, or 0. \<^verbatim>\<open>VkKeyScanA\<close>: upper-case
  letters and digits are their own virtual keys, any other character has none.
\<close>

definition sample_GetIntByName :: "json \<Rightarrow> string \<Rightarrow> int" where
  "sample_GetIntByName j name = (case at_key j name of Inr (JNumber n) \<Rightarrow> n | _ \<Rightarrow> 0)"

definition sample_VkKeyScanA :: "char \<Rightarrow> 16 word" where
  "sample_VkKeyScanA c =
     (if c \<in> set ''ABCDEFGHIJKLMNOPQRSTUVWXYZ0123456789'' then of_char c else - 1)"

definition sample_world :: "provider \<Rightarrow> platform \<Rightarrow> world" where
  "sample_world os pf =
     \<lparr>audio_os = os, codec = sample_codec, GetIntByName = sample_GetIntByName,
      built_for = pf, VkKeyScanA = sample_VkKeyScanA\<rparr>"

text \<open>Two output devices, both connected; \<^verbatim>\<open>"A"\<close> is the default device.\<close>

definition speakers :: AudioDeviceInfo where
  "speakers =
     \<lparr>dev_id = ''A'', interfaceName = ''Realtek Audio'', endpointName = ''Speakers'',
      displayName = ''Speakers (Realtek Audio)'', dev_direction = OUTPUT, dev_state = CONNECTED\<rparr>"

definition headphones :: AudioDeviceInfo where
  "headphones =
     \<lparr>dev_id = ''B'', interfaceName = ''USB Audio'', endpointName = ''Headphones'',
      displayName = ''Headphones (USB Audio)'', dev_direction = OUTPUT, dev_state = CONNECTED\<rparr>"

definition desk_os :: "string \<Rightarrow> provider" where
  "desk_os current =
     \<lparr>GetAudioDeviceState = (\<lambda>i. if i = ''A'' \<or> i = ''B'' then CONNECTED else DISCONNECTED),
      GetAudioDeviceList = (\<lambda>d. if d = OUTPUT then [(''A'', speakers), (''B'', headphones)] else []),
      GetDefaultAudioDeviceID = (\<lambda>d r. if d = OUTPUT \<and> r = DEFAULT then current else '''')\<rparr>"

definition hotkey_json :: "string \<Rightarrow> json" where
  "hotkey_json name =
     JObject
       [(''enabled'', JBool True), (''ctrl'', JBool True), (''alt'', JBool False),
        (''shift'', JBool False), (''win'', JBool False), (''keyCode'', JString name)]"

text \<open>A fully populated settings blob, the two devices as full descriptors.\<close>

definition desk_settings_json :: "json \<Rightarrow> json \<Rightarrow> json" where
  "desk_settings_json primary secondary =
     JObject
       [(''direction'', JString ''output''),
        (''role'', JString ''default''),
        (''primary'', primary),
        (''secondary'', secondary),
        (''matchStrategy'', JString ''ID''),
        (''primaryHotkey'', hotkey_json ''P''),
        (''secondaryHotkey'', hotkey_json ''S'')]"

definition desk_payload :: "json \<Rightarrow> json \<Rightarrow> int \<Rightarrow> json" where
  "desk_payload primary secondary reportedState =
     JObject
       [(''settings'', desk_settings_json primary secondary),
        (''state'', JNumber reportedState)]"

definition no_buttons :: plugin where
  "no_buttons = \<lparr>mVisibleContexts = {}, mButtons = []\<rparr>"

section \<open>The toggle controller in the specification's words\<close>

text \<open>Step 1 of the controller: the slot an activation is aimed at.\<close>

datatype slot = Primary | Secondary

definition target_slot :: "string \<Rightarrow> int \<Rightarrow> slot" where
  "target_slot actionKind reportedState =
     (if actionKind = SET_ACTION_ID \<or> reportedState \<noteq> 0 then Primary else Secondary)"

definition slot_device :: "slot \<Rightarrow> ButtonSettings \<Rightarrow> AudioDeviceInfo" where
  "slot_device s bs = (case s of Primary \<Rightarrow> primaryDevice bs | Secondary \<Rightarrow> secondaryDevice bs)"

definition slot_hotkey :: "slot \<Rightarrow> ButtonSettings \<Rightarrow> HotkeyConfig" where
  "slot_hotkey s bs = (case s of Primary \<Rightarrow> primaryHotkey bs | Secondary \<Rightarrow> secondaryHotkey bs)"

text \<open>Step 2: the volatile id of the slot's device.\<close>

definition target_id :: "world \<Rightarrow> slot \<Rightarrow> ButtonSettings \<Rightarrow> string" where
  "target_id w s bs = GetVolatileID (audio_os w) (slot_device s bs) (matchStrategy bs)"

text \<open>What a handler has sent, however it ended.\<close>

definition sent_by :: "outcome \<Rightarrow> effect list" where
  "sent_by out = (case out of Returned p sent \<Rightarrow> sent | Raised e p sent \<Rightarrow> sent)"

definition is_key_injection :: "effect \<Rightarrow> bool" where
  "is_key_injection e = (case e of SendInput inputs \<Rightarrow> True | CGEventPost ev \<Rightarrow> True | _ \<Rightarrow> False)"

definition is_SetDefaultAudioDeviceID :: "effect \<Rightarrow> bool" where
  "is_SetDefaultAudioDeviceID e = (case e of SetDefaultAudioDeviceID d r i \<Rightarrow> True | _ \<Rightarrow> False)"

definition is_SetState :: "effect \<Rightarrow> bool" where
  "is_SetState e = (case e of SetState s context \<Rightarrow> True | _ \<Rightarrow> False)"

text \<open>
  Steps 5 and 6: the default device is set to the target, then the slot's hotkey is
  injected when it is enabled and has a key.
\<close>

definition apply_and_inject ::
  "world \<Rightarrow> ButtonSettings \<Rightarrow> string \<Rightarrow> HotkeyConfig \<Rightarrow> plugin \<Rightarrow> effect list \<Rightarrow> outcome" where
  "apply_and_inject w bs targetId hotkey p sent =
     (let applied = sent @ [SetDefaultAudioDeviceID (direction bs) (role bs) targetId]
      in if enabled hotkey \<and> keyCode hotkey \<noteq> [] then
           (case TriggerHotkey w hotkey of
              Inl e \<Rightarrow> Raised e p applied
            | Inr keys \<Rightarrow> Returned p (applied @ keys))
         else Returned p applied)"

text \<open>A button registered for the Set action and one for the Toggle action, both with
  \<^verbatim>\<open>"A"\<close> as primary and \<^verbatim>\<open>"B"\<close> as secondary device, matched by id.\<close>

definition desk_settings :: ButtonSettings where
  "desk_settings =
     \<lparr>direction = OUTPUT, role = DEFAULT,
      primaryDevice = speakers, secondaryDevice = headphones,
      matchStrategy = ID,
      primaryHotkey = \<lparr>enabled = True, ctrl = True, alt = False, shift = False, win = False, keyCode = ''P''\<rparr>,
      secondaryHotkey = \<lparr>enabled = True, ctrl = True, alt = False, shift = False, win = False, keyCode = ''S''\<rparr>\<rparr>"

definition set_button_shown :: plugin where
  "set_button_shown =
     \<lparr>mVisibleContexts = {''ctx''},
      mButtons = [(''ctx'', \<lparr>action = SET_ACTION_ID, contextID = ''ctx'', settings = desk_settings\<rparr>)]\<rparr>"

definition toggle_button_shown :: plugin where
  "toggle_button_shown =
     \<lparr>mVisibleContexts = {''ctx''},
      mButtons = [(''ctx'', \<lparr>action = TOGGLE_ACTION_ID, contextID = ''ctx'', settings = desk_settings\<rparr>)]\<rparr>"

definition full_payload :: "int \<Rightarrow> json" where
  "full_payload reportedState =
     desk_payload (sample_device_to_json speakers) (sample_device_to_json headphones) reportedState"

definition unplugged_os :: provider where
  "unplugged_os =
     \<lparr>GetAudioDeviceState = (\<lambda>i. if i = ''B'' then CONNECTED else DISCONNECTED),
      GetAudioDeviceList = (\<lambda>d. if d = OUTPUT then [(''B'', headphones)] else []),
      GetDefaultAudioDeviceID = (\<lambda>d r. if d = OUTPUT \<and> r = DEFAULT then ''B'' else '''')\<rparr>"

section \<open>Backfill in the specification's words\<close>

definition live_record :: "provider \<Rightarrow> AudioDeviceInfo \<Rightarrow> AudioDeviceInfo option" where
  "live_record os d = map_of (GetAudioDeviceList os (dev_direction d)) (dev_id d)"

definition needs_backfill :: "provider \<Rightarrow> AudioDeviceInfo \<Rightarrow> bool" where
  "needs_backfill os d = (dev_id d \<noteq> [] \<and> displayName d = [] \<and> live_record os d \<noteq> None)"

definition backfilled :: "provider \<Rightarrow> AudioDeviceInfo \<Rightarrow> AudioDeviceInfo" where
  "backfilled os d =
     (if dev_id d \<noteq> [] \<and> displayName d = []
      then (case live_record os d of Some live \<Rightarrow> live | None \<Rightarrow> d)
      else d)"

definition backfilled_settings :: "provider \<Rightarrow> ButtonSettings \<Rightarrow> ButtonSettings" where
  "backfilled_settings os bs =
     bs\<lparr>primaryDevice := backfilled os (primaryDevice bs),
        secondaryDevice := backfilled os (secondaryDevice bs)\<rparr>"

text \<open>The signal to the host that the settings changed and are to be persisted.\<close>

definition persist_signals :: "world \<Rightarrow> string \<Rightarrow> ButtonSettings \<Rightarrow> effect list" where
  "persist_signals w context bs =
     (if needs_backfill (audio_os w) (primaryDevice bs) \<or> needs_backfill (audio_os w) (secondaryDevice bs)
      then [SetSettings (to_json_ButtonSettings (codec w) (backfilled_settings (audio_os w) bs)) context]
      else [])"

text \<open>A blob that names its devices by id only.\<close>

definition ids_only_settings_json :: json where
  "ids_only_settings_json =
     JObject
       [(''direction'', JString ''output''),
        (''primary'', JObject
           [(''id'', JString ''A''), (''interfaceName'', JString ''''), (''endpointName'', JString ''''),
            (''displayName'', JString ''''), (''direction'', JString ''output''),
            (''state'', JString ''unknown'')]),
        (''secondary'', JString ''B'')]"

definition ids_only_payload :: json where
  "ids_only_payload = JObject [(''settings'', ids_only_settings_json), (''state'', JNumber 1)]"

section \<open>Visual reconciliation in the specification's words\<close>

text \<open>The default device that reconciliation compares with: the one the notification
  names, or the provider's when the notification names none.\<close>

definition live_default :: "world \<Rightarrow> ButtonSettings \<Rightarrow> string \<Rightarrow> string" where
  "live_default w bs notified =
     (if notified = [] then GetDefaultAudioDeviceID (audio_os w) (direction bs) (role bs)
      else notified)"

text \<open>Step 7 as the specification states it, for every action kind.\<close>

definition reconcile_as_stated :: "world \<Rightarrow> ButtonSettings \<Rightarrow> string \<Rightarrow> string \<Rightarrow> effect list" where
  "reconcile_as_stated w bs active context =
     (if active = VolatilePrimaryID (audio_os w) bs then [SetState 0 context]
      else if active = VolatileSecondaryID (audio_os w) bs then [SetState 1 context]
      else [ShowAlertForContext context])"

text \<open>Step 7 as amended: a Set button reports 1 whenever the default device is not its
  primary device, and never alerts.\<close>

definition reconcile :: "world \<Rightarrow> Button \<Rightarrow> string \<Rightarrow> string \<Rightarrow> effect list" where
  "reconcile w button notified context =
     (let active = live_default w (settings button) notified
      in if action button = SET_ACTION_ID
         then [SetState (if active = VolatilePrimaryID (audio_os w) (settings button) then 0 else 1) context]
         else reconcile_as_stated w (settings button) active context)"

definition reconcile_matching ::
  "world \<Rightarrow> AudioDeviceDirection \<Rightarrow> AudioDeviceRole \<Rightarrow> string \<Rightarrow> string \<times> Button \<Rightarrow> effect list" where
  "reconcile_matching w d r device entry =
     (if direction (settings (snd entry)) = d \<and> role (settings (snd entry)) = r
      then reconcile w (snd entry) device (fst entry)
      else [])"

section \<open>A hotkey whose key name is no key\<close>

definition unparsable_hotkey :: HotkeyConfig where
  "unparsable_hotkey =
     \<lparr>enabled = True, ctrl = False, alt = False, shift = False, win = False, keyCode = ''Fx''\<rparr>"

definition unparsable_payload :: json where
  "unparsable_payload =
     JObject
       [(''settings'',
         JObject
           [(''direction'', JString ''output''),
            (''role'', JString ''default''),
            (''primary'', sample_device_to_json speakers),
            (''secondary'', sample_device_to_json headphones),
            (''matchStrategy'', JString ''ID''),
            (''primaryHotkey'', hotkey_json ''P''),
            (''secondaryHotkey'', to_json_HotkeyConfig unparsable_hotkey)]),
        (''state'', JNumber 0)]"

section \<open>Decoding and encoding in the specification's words\<close>

text \<open>A member of an object that holds a value of the kind the code converts it to.\<close>

definition member_is :: "json \<Rightarrow> string \<Rightarrow> (json \<Rightarrow> bool) \<Rightarrow> bool" where
  "member_is j key holds = (case at_key j key of Inr v \<Rightarrow> holds v | Inl e \<Rightarrow> False)"

definition is_boolean :: "json \<Rightarrow> bool" where
  "is_boolean j = (case j of JBool b \<Rightarrow> True | _ \<Rightarrow> False)"

definition converts :: "(json \<Rightarrow> error + 'a) \<Rightarrow> json \<Rightarrow> bool" where
  "converts conv v = (case conv v of Inr x \<Rightarrow> True | Inl e \<Rightarrow> False)"

text \<open>
  Every member that is present, under its canonical name or else under its legacy alias,
  holds a value of its kind; a member that is missing asks for nothing.
\<close>

definition present_is :: "json \<Rightarrow> string \<Rightarrow> string \<Rightarrow> (json \<Rightarrow> bool) \<Rightarrow> bool" where
  "present_is j key alias holds =
     (if contains j key then member_is j key holds
      else if contains j alias then member_is j alias holds
      else True)"

definition hotkey_readable :: "json \<Rightarrow> bool" where
  "hotkey_readable h =
     (present_is h ''enabled'' ''hotkeyEnabled'' is_boolean
      \<and> present_is h ''ctrl'' ''hotkeyCtrl'' is_boolean
      \<and> present_is h ''alt'' ''hotkeyAlt'' is_boolean
      \<and> present_is h ''shift'' ''hotkeyShift'' is_boolean
      \<and> present_is h ''win'' ''hotkeyWin'' is_boolean
      \<and> present_is h ''keyCode'' ''hotkeyKey'' is_string)"

definition device_readable :: "audio_json \<Rightarrow> json \<Rightarrow> bool" where
  "device_readable c v = (is_string v \<or> converts (device_from_json c) v)"

definition settings_readable :: "audio_json \<Rightarrow> json \<Rightarrow> bool" where
  "settings_readable c j =
     (member_is j ''direction'' (converts (direction_from_json c))
      \<and> present_is j ''role'' ''role'' (converts (role_from_json c))
      \<and> present_is j ''primary'' ''primary'' (device_readable c)
      \<and> present_is j ''secondary'' ''secondary'' (device_readable c)
      \<and> present_is j ''primaryHotkey'' ''hotkey'' hotkey_readable
      \<and> present_is j ''secondaryHotkey'' ''secondaryHotkey'' hotkey_readable)"

text \<open>The canonical member names of the persisted layout.\<close>

definition hotkey_members :: "string list" where
  "hotkey_members = [''enabled'', ''ctrl'', ''alt'', ''shift'', ''win'', ''keyCode'']"

definition plain_members :: "string list" where
  "plain_members = [''direction'', ''role'', ''primary'', ''secondary'', ''matchStrategy'']"

definition member_names :: "json \<Rightarrow> string list" where
  "member_names j = (case j of JObject members \<Rightarrow> map fst members | _ \<Rightarrow> [])"

text \<open>A member of a hotkey member of the blob.\<close>

definition hotkey_member :: "json \<Rightarrow> string \<Rightarrow> string \<Rightarrow> error + json" where
  "hotkey_member j hotkey key = bindE (at_key j hotkey) (\<lambda>h. at_key h key)"

text \<open>
  A fully populated canonical blob that encoding can give back: direction, role and the
  two devices hold values that the conversions of \<^verbatim>\<open>audio_json.h\<close> read and write back
  as they were, the devices as full descriptors; the match strategy is one of its two
  names; the hotkeys carry their six members, flags as booleans and the key as a string.
\<close>

definition round_trips :: "(json \<Rightarrow> error + 'a) \<Rightarrow> ('a \<Rightarrow> json) \<Rightarrow> json \<Rightarrow> bool" where
  "round_trips conv back v = (case conv v of Inr x \<Rightarrow> back x = v | Inl e \<Rightarrow> False)"

definition canonical_hotkey :: "json \<Rightarrow> bool" where
  "canonical_hotkey h =
     (member_is h ''enabled'' is_boolean
      \<and> member_is h ''ctrl'' is_boolean
      \<and> member_is h ''alt'' is_boolean
      \<and> member_is h ''shift'' is_boolean
      \<and> member_is h ''win'' is_boolean
      \<and> member_is h ''keyCode'' is_string)"

definition full_descriptor :: "audio_json \<Rightarrow> json \<Rightarrow> bool" where
  "full_descriptor c v =
     (\<not> is_string v \<and> round_trips (device_from_json c) (device_to_json c) v)"

definition canonical_blob :: "audio_json \<Rightarrow> json \<Rightarrow> bool" where
  "canonical_blob c blob =
     (member_is blob ''direction'' (round_trips (direction_from_json c) (direction_to_json c))
      \<and> member_is blob ''role'' (round_trips (role_from_json c) (role_to_json c))
      \<and> member_is blob ''primary'' (full_descriptor c)
      \<and> member_is blob ''secondary'' (full_descriptor c)
      \<and> member_is blob ''matchStrategy'' (\<lambda>v. v = JString ''ID'' \<or> v = JString ''Fuzzy'')
      \<and> member_is blob ''primaryHotkey'' canonical_hotkey
      \<and> member_is blob ''secondaryHotkey'' canonical_hotkey)"

text \<open>A blob in the legacy form: the hotkey under \<^verbatim>\<open>hotkey\<close>, its members under their
  aliases, everything else but the direction missing.\<close>

definition legacy_settings_json :: json where
  "legacy_settings_json =
     JObject
       [(''direction'', JString ''output''),
        (''hotkey'', JObject [(''hotkeyEnabled'', JBool True), (''hotkeyKey'', JString ''A'')])]"

definition no_direction_json :: json where
  "no_direction_json =
     JObject
       [(''role'', JString ''communication''),
        (''primary'', JString ''A''),
        (''matchStrategy'', JString ''Fuzzy'')]"

section \<open>Claim C1: fuzzy resolution\<close>

lemma FuzzifyInterface_strip: "FuzzifyInterface name = strip_ordinal_prefix_of_name name"
  by (simp add: FuzzifyInterface_def strip_ordinal_prefix_of_name_def strip_ordinal_prefix_def
      Let_def)

lemma fuzzy_scan_find:
  assumes "list_all (\<lambda>(k, live). k = dev_id live \<and> dev_direction live = dev_direction device) devices"
  shows "fuzzy_scan (FuzzifyInterface (interfaceName device)) device devices =
         (case find (fuzzy_candidate FuzzifyInterface device) (map snd devices) of
            Some live \<Rightarrow> dev_id live
          | None \<Rightarrow> dev_id device)"
  using assms
proof (induction devices)
  case Nil
  show ?case by simp
next
  case (Cons entry devices)
  obtain otherID other where entry: "entry = (otherID, other)"
    by (cases entry)
  from Cons.prems entry have key: "otherID = dev_id other"
    and dir: "dev_direction other = dev_direction device"
    and rest: "list_all (\<lambda>(k, live). k = dev_id live \<and> dev_direction live = dev_direction device) devices"
    by simp_all
  show ?case
    using Cons.IH [OF rest] key dir
    by (auto simp add: entry fuzzy_candidate_def Let_def)
qed

text \<open>
  C1, as amended. For a descriptor with a non-empty id, over a provider that lists the
  devices of a direction under their own ids, resolution under Fuzzy returns the
  descriptor's id when the provider reports that id Connected; otherwise the id of the
  first Connected device of the descriptor's direction, in the provider's order, whose
  normalised interface name equals the descriptor's and whose endpoint name is equal;
  otherwise the descriptor's id. The normalisation strips a leading \<^verbatim>\<open><digits>- \<close> only
  when at least one character follows it and the name holds no line terminator.
\<close>

theorem GetVolatileID_Fuzzy_resolution:
  assumes "dev_id descriptor \<noteq> []"
    and "listed_by_id os (dev_direction descriptor)"
  shows "GetVolatileID os descriptor Fuzzy =
         resolve_fuzzy strip_ordinal_prefix_of_name os descriptor"
proof -
  have same: "FuzzifyInterface = strip_ordinal_prefix_of_name"
    by (rule ext) (rule FuzzifyInterface_strip)
  from assms(2) have "fuzzy_scan (FuzzifyInterface (interfaceName descriptor)) descriptor
        (GetAudioDeviceList os (dev_direction descriptor)) =
      (case find (fuzzy_candidate FuzzifyInterface descriptor)
              (map snd (GetAudioDeviceList os (dev_direction descriptor))) of
         Some live \<Rightarrow> dev_id live
       | None \<Rightarrow> dev_id descriptor)"
    unfolding listed_by_id_def by (rule fuzzy_scan_find)
  with assms(1) show ?thesis
    by (simp add: GetVolatileID_def resolve_fuzzy_def Let_def same)
qed

theorem GetVolatileID_Fuzzy_resolution_witness:
  "dev_id headset_descriptor \<noteq> []
   \<and> listed_by_id headset_os (dev_direction headset_descriptor)
   \<and> GetVolatileID headset_os headset_descriptor Fuzzy = ''B''
   \<and> resolve_fuzzy strip_ordinal_prefix_of_name headset_os headset_descriptor = ''B''"
proof -
  have id: "dev_id headset_descriptor \<noteq> []"
    by (simp add: headset_descriptor_def)
  have listed: "listed_by_id headset_os (dev_direction headset_descriptor)"
    by (simp add: listed_by_id_def headset_os_def headset_descriptor_def headset_live_def)
  have "resolve_fuzzy strip_ordinal_prefix_of_name headset_os headset_descriptor = ''B''"
    by (simp add: resolve_fuzzy_def fuzzy_candidate_def strip_ordinal_prefix_of_name_def
        strip_ordinal_prefix_def is_digit_def is_line_terminator_def headset_os_def
        headset_descriptor_def headset_live_def)
  with id listed GetVolatileID_Fuzzy_resolution [OF id listed] show ?thesis
    by simp
qed

text \<open>
  C1 as stated fails: with the prefix stripped whatever follows it, the interface name
  \<^verbatim>\<open>"3- "\<close> and the empty interface name normalise to the same value, and resolution
  would return the live device's id; the code keeps \<^verbatim>\<open>"3- "\<close> and returns the
  descriptor's id.
\<close>

theorem GetVolatileID_Fuzzy_bare_prefix_counterexample:
  "dev_id bare_prefix_descriptor \<noteq> []
   \<and> listed_by_id unnamed_os (dev_direction bare_prefix_descriptor)
   \<and> resolve_fuzzy strip_ordinal_prefix unnamed_os bare_prefix_descriptor = ''B''
   \<and> GetVolatileID unnamed_os bare_prefix_descriptor Fuzzy = ''A''"
  by (simp add: resolve_fuzzy_def fuzzy_candidate_def strip_ordinal_prefix_def
      GetVolatileID_def FuzzifyInterface_def listed_by_id_def is_digit_def
      is_line_terminator_def unnamed_os_def bare_prefix_descriptor_def unnamed_live_def)

section \<open>Lemmas shared by the claims about the handlers\<close>

lemma FillButtonDeviceInfo_sent:
  "FillButtonDeviceInfo w context p = Returned p' sent \<Longrightarrow>
   sent = [] \<or> (\<exists>j. sent = [SetSettings j context])"
  by (auto simp add: FillButtonDeviceInfo_def Let_def split: option.splits prod.splits if_splits)

lemma KeyUp_settings_sent:
  "KeyUp_settings w context payload p = Returned p' sent \<Longrightarrow>
   sent = [] \<or> (\<exists>j. sent = [SetSettings j context])"
  by (auto simp add: KeyUp_settings_def Let_def split: sum.splits dest: FillButtonDeviceInfo_sent)

lemma KeyUpForAction_switch:
  assumes "contains inPayload ''settings''"
    and "KeyUp_settings w inContext inPayload p = Returned p' sent"
  shows "KeyUpForAction w inAction inContext inPayload inDeviceID p =
         KeyUp_switch w inAction inContext inPayload p' sent"
  using assms by (simp add: KeyUpForAction_def)

lemma KeyUp_switch_slot:
  "KeyUp_switch w inAction inContext inPayload p sent =
     (let bs = settings (button_at w p inContext);
          reportedState = GetIntByName w inPayload ''state'';
          chosen = target_slot inAction reportedState;
          targetId = target_id w chosen bs
      in if targetId = [] then Returned p sent
         else if GetAudioDeviceState (audio_os w) targetId \<noteq> CONNECTED then
           Returned p
             (sent @ (if inAction = SET_ACTION_ID then [SetState 1 inContext] else [])
              @ [ShowAlertForContext inContext])
         else if inAction = SET_ACTION_ID
                 \<and> targetId = GetDefaultAudioDeviceID (audio_os w) (direction bs) (role bs)
         then Returned p (sent @ [SetState reportedState inContext])
         else apply_and_inject w bs targetId (slot_hotkey chosen bs) p sent)"
proof (cases "GetIntByName w inPayload ''state'' \<noteq> 0 \<or> inAction = SET_ACTION_ID")
  case True
  then have "target_slot inAction (GetIntByName w inPayload ''state'') = Primary"
    by (auto simp add: target_slot_def)
  with True show ?thesis
    by (simp add: KeyUp_switch_def target_id_def slot_device_def slot_hotkey_def
        apply_and_inject_def VolatilePrimaryID_def Let_def)
next
  case False
  then have "target_slot inAction (GetIntByName w inPayload ''state'') = Secondary"
    by (auto simp add: target_slot_def)
  with False show ?thesis
    by (simp add: KeyUp_switch_def target_id_def slot_device_def slot_hotkey_def
        apply_and_inject_def VolatileSecondaryID_def Let_def)
qed

lemma FillAudioDeviceInfo_backfilled:
  "FillAudioDeviceInfo os d = (needs_backfill os d, backfilled os d)"
  by (simp add: FillAudioDeviceInfo_def needs_backfill_def backfilled_def live_record_def Let_def
      split: option.splits)

lemma FillButtonDeviceInfo_registered:
  assumes "map_of (mButtons p) context = Some button"
  shows "FillButtonDeviceInfo w context p =
         Returned (store_button context (button\<lparr>settings := backfilled_settings (audio_os w) (settings button)\<rparr>) p)
           (persist_signals w context (settings button))"
  using assms
  by (simp add: FillButtonDeviceInfo_def FillAudioDeviceInfo_backfilled backfilled_settings_def
      persist_signals_def Let_def)

lemma map_of_store_button:
  "map_of (mButtons (store_button context b p)) context = Some b"
  by (simp add: store_button_def update_conv')

lemma button_at_store_button:
  "button_at w (store_button context b p) context = b"
  by (simp add: button_at_def map_of_store_button)

lemma store_button_twice:
  "store_button context b (store_button context b' p) = store_button context b p"
  by (simp add: store_button_def)

lemma UpdateState_reconcile:
  "snd (UpdateState w context notified p) = reconcile w (button_at w p context) notified context"
  by (simp add: UpdateState_def reconcile_def reconcile_as_stated_def live_default_def Let_def)

lemma UpdateState_registered:
  assumes "map_of (mButtons p) context = Some button"
  shows "UpdateState w context notified p = (p, reconcile w button notified context)"
proof -
  have touched: "touch_button w context p = p"
    using assms by (simp add: touch_button_def button_at_def update_triv)
  have here: "button_at w p context = button"
    using assms by (simp add: button_at_def)
  show ?thesis
    by (simp add: UpdateState_def reconcile_def reconcile_as_stated_def live_default_def Let_def
        touched here)
qed

lemma notify_buttons_registered:
  assumes "\<forall>entry \<in> set entries. map_of (mButtons p) (fst entry) = Some (snd entry)"
  shows "notify_buttons w d r device entries p =
         (p, concat (map (reconcile_matching w d r device) entries))"
  using assms
proof (induction entries)
  case Nil
  show ?case by simp
next
  case (Cons entry entries)
  obtain ctx button where entry: "entry = (ctx, button)"
    by (cases entry)
  from Cons.prems entry have reg: "map_of (mButtons p) ctx = Some button"
    by simp
  from Cons.prems have rest: "\<forall>e \<in> set entries. map_of (mButtons p) (fst e) = Some (snd e)"
    by simp
  show ?case
    by (simp add: entry Cons.IH [OF rest] UpdateState_registered [OF reg] reconcile_matching_def)
qed

lemma WillAppearForAction_decoded:
  assumes "contains inPayload ''settings''"
    and "bindE (at_key inPayload ''settings'') (ButtonSettings_of_json (codec w)) = Inr decoded"
  shows "sent_by (WillAppearForAction w inAction inContext inPayload inDeviceID p) =
         reconcile w \<lparr>action = inAction, contextID = inContext, settings = decoded\<rparr> [] inContext
         @ persist_signals w inContext decoded"
proof -
  let ?p1 = "p\<lparr>mVisibleContexts := insert inContext (mVisibleContexts p)\<rparr>"
  let ?b = "\<lparr>action = inAction, contextID = inContext, settings = decoded\<rparr>"
  have upd: "UpdateState w inContext [] (store_button inContext ?b ?p1) =
             (store_button inContext ?b ?p1, reconcile w ?b [] inContext)"
    by (rule UpdateState_registered [OF map_of_store_button])
  have fill: "FillButtonDeviceInfo w inContext (store_button inContext ?b ?p1) =
      Returned (store_button inContext (?b\<lparr>settings := backfilled_settings (audio_os w) decoded\<rparr>)
                  (store_button inContext ?b ?p1))
        (persist_signals w inContext decoded)"
    using FillButtonDeviceInfo_registered [OF map_of_store_button, of w inContext ?b ?p1]
    by simp
  show ?thesis
    using assms
    by (simp add: WillAppearForAction_def Let_def button_at_store_button store_button_twice
        upd fill sent_by_def)
qed

section \<open>Claim C2: the target slot of an activation\<close>

text \<open>
  C2. After the settings of the payload are decoded and backfilled, \<^verbatim>\<open>KeyUpForAction\<close>
  resolves the device of the slot that \<open>target_slot\<close> names: the primary slot when the
  action is Set or the reported state is not 0, the secondary slot otherwise. When the
  slot's device resolves to the empty id nothing more happens; when the activation reaches
  the switch, the default device is set to the slot's volatile id and the hotkey considered
  for injection is the same slot's hotkey. A Set button aims at the primary slot for every
  reported state; any other button aims at the secondary slot for state 0 and at the
  primary slot otherwise.
\<close>

theorem KeyUpForAction_target_slot:
  assumes "contains inPayload ''settings''"
    and "KeyUp_settings w inContext inPayload p = Returned p' sent"
    and "bs = settings (button_at w p' inContext)"
    and "reportedState = GetIntByName w inPayload ''state''"
    and "chosen = target_slot inAction reportedState"
    and "targetId = target_id w chosen bs"
  shows "(targetId = [] \<longrightarrow>
            KeyUpForAction w inAction inContext inPayload inDeviceID p = Returned p' sent)
       \<and> (targetId \<noteq> [] \<and> GetAudioDeviceState (audio_os w) targetId = CONNECTED
          \<and> \<not> (inAction = SET_ACTION_ID
                \<and> targetId = GetDefaultAudioDeviceID (audio_os w) (direction bs) (role bs)) \<longrightarrow>
            KeyUpForAction w inAction inContext inPayload inDeviceID p =
            apply_and_inject w bs targetId (slot_hotkey chosen bs) p' sent)
       \<and> target_slot SET_ACTION_ID reportedState = Primary
       \<and> (inAction \<noteq> SET_ACTION_ID \<longrightarrow>
            chosen = (if reportedState = 0 then Secondary else Primary))"
  unfolding KeyUpForAction_switch [OF assms(1,2)] KeyUp_switch_slot
  by (simp add: assms(3-6) Let_def target_slot_def)

theorem KeyUpForAction_target_slot_witness:
  "contains (full_payload 0) ''settings''
   \<and> KeyUp_settings (sample_world (desk_os ''A'') WIN32) ''ctx'' (full_payload 0) toggle_button_shown
       = Returned toggle_button_shown []
   \<and> target_slot TOGGLE_ACTION_ID 0 = Secondary
   \<and> KeyUpForAction (sample_world (desk_os ''A'') WIN32) TOGGLE_ACTION_ID ''ctx'' (full_payload 0)
         ''deck'' toggle_button_shown
       = apply_and_inject (sample_world (desk_os ''A'') WIN32) desk_settings ''B''
           (secondaryHotkey desk_settings) toggle_button_shown []"
proof -
  let ?w = "sample_world (desk_os ''A'') WIN32"
  have h1: "contains (full_payload 0) ''settings''"
    by code_simp
  have h2: "KeyUp_settings ?w ''ctx'' (full_payload 0) toggle_button_shown
            = Returned toggle_button_shown []"
    by code_simp
  have bs: "settings (button_at ?w toggle_button_shown ''ctx'') = desk_settings"
    by code_simp
  have st: "GetIntByName ?w (full_payload 0) ''state'' = 0"
    by code_simp
  have slot: "target_slot TOGGLE_ACTION_ID 0 = Secondary"
    by code_simp
  have tid: "target_id ?w Secondary desk_settings = ''B''"
    by code_simp
  have live: "GetAudioDeviceState (audio_os ?w) ''B'' = CONNECTED"
    by code_simp
  have toggle: "TOGGLE_ACTION_ID \<noteq> SET_ACTION_ID"
    by code_simp
  have hk: "slot_hotkey Secondary desk_settings = secondaryHotkey desk_settings"
    by (simp add: slot_hotkey_def)
  from KeyUpForAction_target_slot [OF h1 h2 refl refl refl refl, of TOGGLE_ACTION_ID "''deck''"]
  show ?thesis
    unfolding bs st slot tid hk using h1 h2 live toggle slot by simp
qed

section \<open>Claim C3: a Set activation whose target is already the default device\<close>

text \<open>
  C3, as amended. For a Set activation whose target id is not empty, whose target device
  is Connected and whose target id is the provider's default device for the button's
  direction and role, \<^verbatim>\<open>KeyUpForAction\<close> sets no default device, injects no key, sends
  the host the reported state of the payload as it came, and returns.
\<close>

theorem KeyUpForAction_already_default:
  assumes "contains inPayload ''settings''"
    and "KeyUp_settings w inContext inPayload p = Returned p' sent"
    and "bs = settings (button_at w p' inContext)"
    and "reportedState = GetIntByName w inPayload ''state''"
    and "targetId = target_id w (target_slot SET_ACTION_ID reportedState) bs"
    and "targetId \<noteq> []"
    and "GetAudioDeviceState (audio_os w) targetId = CONNECTED"
    and "targetId = GetDefaultAudioDeviceID (audio_os w) (direction bs) (role bs)"
  shows "KeyUpForAction w SET_ACTION_ID inContext inPayload inDeviceID p =
           Returned p' (sent @ [SetState reportedState inContext])
       \<and> \<not> list_ex is_SetDefaultAudioDeviceID
             (sent_by (KeyUpForAction w SET_ACTION_ID inContext inPayload inDeviceID p))
       \<and> \<not> list_ex is_key_injection
             (sent_by (KeyUpForAction w SET_ACTION_ID inContext inPayload inDeviceID p))"
proof -
  have out: "KeyUpForAction w SET_ACTION_ID inContext inPayload inDeviceID p =
           Returned p' (sent @ [SetState reportedState inContext])"
    using assms(6,7,8)
    unfolding KeyUpForAction_switch [OF assms(1,2)] KeyUp_switch_slot assms(3-5)
    by (simp add: Let_def)
  from KeyUp_settings_sent [OF assms(2)]
  have quiet: "\<not> list_ex is_SetDefaultAudioDeviceID sent \<and> \<not> list_ex is_key_injection sent"
    by (auto simp add: is_SetDefaultAudioDeviceID_def is_key_injection_def)
  show ?thesis
    unfolding out using quiet
    by (simp add: sent_by_def is_SetDefaultAudioDeviceID_def is_key_injection_def)
qed

theorem KeyUpForAction_already_default_witness:
  "contains (full_payload 0) ''settings''
   \<and> GetAudioDeviceState (desk_os ''A'') ''A'' = CONNECTED
   \<and> GetDefaultAudioDeviceID (desk_os ''A'') OUTPUT DEFAULT = ''A''
   \<and> KeyUpForAction (sample_world (desk_os ''A'') WIN32) SET_ACTION_ID ''ctx'' (full_payload 0)
         ''deck'' set_button_shown
       = Returned set_button_shown [SetState 0 ''ctx'']"
proof -
  let ?w = "sample_world (desk_os ''A'') WIN32"
  let ?target = "target_id ?w (target_slot SET_ACTION_ID (GetIntByName ?w (full_payload 0) ''state''))
                   (settings (button_at ?w set_button_shown ''ctx''))"
  have h1: "contains (full_payload 0) ''settings''"
    by code_simp
  have h2: "KeyUp_settings ?w ''ctx'' (full_payload 0) set_button_shown = Returned set_button_shown []"
    by code_simp
  have h6: "?target \<noteq> []"
    by code_simp
  have h7: "GetAudioDeviceState (audio_os ?w) ?target = CONNECTED"
    by code_simp
  have h8: "?target = GetDefaultAudioDeviceID (audio_os ?w)
              (direction (settings (button_at ?w set_button_shown ''ctx'')))
              (role (settings (button_at ?w set_button_shown ''ctx'')))"
    by code_simp
  have st: "GetIntByName ?w (full_payload 0) ''state'' = 0"
    by code_simp
  have live: "GetAudioDeviceState (desk_os ''A'') ''A'' = CONNECTED"
    by code_simp
  have current: "GetDefaultAudioDeviceID (desk_os ''A'') OUTPUT DEFAULT = ''A''"
    by code_simp
  from KeyUpForAction_already_default [OF h1 h2 refl refl refl h6 h7 h8]
  show ?thesis
    using h1 live current by (simp add: st)
qed

text \<open>
  C3 as stated fails in its last part. A Set button whose primary device \<^verbatim>\<open>"A"\<close> is the
  default device is pressed while the host reports state 1: the handler sends state 1
  back, where reconciliation with the default device (\<^verbatim>\<open>UpdateState\<close>) reports state 0
  for the same button.
\<close>

theorem KeyUpForAction_already_default_counterexample:
  "target_id (sample_world (desk_os ''A'') WIN32) (target_slot SET_ACTION_ID 1) desk_settings = ''A''
   \<and> GetAudioDeviceState (desk_os ''A'') ''A'' = CONNECTED
   \<and> GetDefaultAudioDeviceID (desk_os ''A'') OUTPUT DEFAULT = ''A''
   \<and> KeyUpForAction (sample_world (desk_os ''A'') WIN32) SET_ACTION_ID ''ctx'' (full_payload 1)
         ''deck'' set_button_shown
       = Returned set_button_shown [SetState 1 ''ctx'']
   \<and> UpdateState (sample_world (desk_os ''A'') WIN32) ''ctx'' [] set_button_shown
       = (set_button_shown, [SetState 0 ''ctx''])"
  by code_simp

section \<open>Claim C4: visual reconciliation\<close>

text \<open>
  C4, as amended. Whenever visual reconciliation runs (\<^verbatim>\<open>UpdateState\<close>: when a button
  appears with settings, and after a default-device-changed notification for every
  registered button whose settings have the changed direction and role), the volatile ids
  are recomputed and a button that is not a Set button is reported state 0 if the live
  default device id equals the primary volatile id, else state 1 if it equals the
  secondary volatile id, else an alert; a Set button is reported state 0 if the live
  default device id equals the primary volatile id and state 1 otherwise, and is never
  alerted.
\<close>

theorem visual_reconciliation:
  "snd (UpdateState w context notified p) = reconcile w (button_at w p context) notified context
   \<and> (distinct (map fst (mButtons p)) \<longrightarrow>
        OnDefaultDeviceChanged w d r device p =
          (p, concat (map (reconcile_matching w d r device) (mButtons p))))
   \<and> (\<forall>decoded.
        contains inPayload ''settings''
        \<and> bindE (at_key inPayload ''settings'') (ButtonSettings_of_json (codec w)) = Inr decoded \<longrightarrow>
        sent_by (WillAppearForAction w inAction inContext inPayload inDeviceID p) =
          reconcile w \<lparr>action = inAction, contextID = inContext, settings = decoded\<rparr> [] inContext
          @ persist_signals w inContext decoded)"
proof (intro conjI impI allI)
  show "snd (UpdateState w context notified p) = reconcile w (button_at w p context) notified context"
    by (rule UpdateState_reconcile)
next
  assume "distinct (map fst (mButtons p))"
  then have "\<forall>entry \<in> set (mButtons p). map_of (mButtons p) (fst entry) = Some (snd entry)"
    by simp
  then show "OnDefaultDeviceChanged w d r device p =
          (p, concat (map (reconcile_matching w d r device) (mButtons p)))"
    unfolding OnDefaultDeviceChanged_def by (rule notify_buttons_registered)
next
  fix decoded
  assume "contains inPayload ''settings''
        \<and> bindE (at_key inPayload ''settings'') (ButtonSettings_of_json (codec w)) = Inr decoded"
  then show "sent_by (WillAppearForAction w inAction inContext inPayload inDeviceID p) =
          reconcile w \<lparr>action = inAction, contextID = inContext, settings = decoded\<rparr> [] inContext
          @ persist_signals w inContext decoded"
    by (simp add: WillAppearForAction_decoded)
qed

theorem visual_reconciliation_witness:
  "distinct (map fst (mButtons toggle_button_shown))
   \<and> OnDefaultDeviceChanged (sample_world (desk_os ''Z'') WIN32) OUTPUT DEFAULT ''B'' toggle_button_shown
       = (toggle_button_shown, [SetState 1 ''ctx''])
   \<and> OnDefaultDeviceChanged (sample_world (desk_os ''Z'') WIN32) OUTPUT DEFAULT ''Z'' set_button_shown
       = (set_button_shown, [SetState 1 ''ctx''])
   \<and> contains (full_payload 0) ''settings''
   \<and> bindE (at_key (full_payload 0) ''settings'') (ButtonSettings_of_json sample_codec) = Inr desk_settings
   \<and> sent_by (WillAppearForAction (sample_world (desk_os ''Z'') WIN32) TOGGLE_ACTION_ID ''ctx''
         (full_payload 0) ''deck'' no_buttons) = [ShowAlertForContext ''ctx'']"
proof -
  let ?w = "sample_world (desk_os ''Z'') WIN32"
  have d1: "distinct (map fst (mButtons toggle_button_shown))"
    by code_simp
  have d2: "distinct (map fst (mButtons set_button_shown))"
    by code_simp
  have r1: "concat (map (reconcile_matching ?w OUTPUT DEFAULT ''B'') (mButtons toggle_button_shown))
            = [SetState 1 ''ctx'']"
    by code_simp
  have r2: "concat (map (reconcile_matching ?w OUTPUT DEFAULT ''Z'') (mButtons set_button_shown))
            = [SetState 1 ''ctx'']"
    by code_simp
  have c: "contains (full_payload 0) ''settings''"
    by code_simp
  have dec: "bindE (at_key (full_payload 0) ''settings'') (ButtonSettings_of_json (codec ?w)) = Inr desk_settings"
    by code_simp
  have r3: "reconcile ?w \<lparr>action = TOGGLE_ACTION_ID, contextID = ''ctx'', settings = desk_settings\<rparr> [] ''ctx''
            @ persist_signals ?w ''ctx'' desk_settings = [ShowAlertForContext ''ctx'']"
    by code_simp
  have cd: "codec ?w = sample_codec"
    by (simp add: sample_world_def)
  from visual_reconciliation [where w = ?w and p = toggle_button_shown and d = OUTPUT
      and r = DEFAULT and device = "''B''"]
    visual_reconciliation [where w = ?w and p = set_button_shown and d = OUTPUT
      and r = DEFAULT and device = "''Z''"]
    visual_reconciliation [where w = ?w and p = no_buttons and inPayload = "full_payload 0"
      and inAction = TOGGLE_ACTION_ID and inContext = "''ctx''" and inDeviceID = "''deck''"]
  show ?thesis
    using d1 d2 c dec by (simp add: r1 r2 r3 cd)
qed

text \<open>
  C4 as stated fails for a Set button: with the default device \<^verbatim>\<open>"Z"\<close> equal to neither
  the primary id \<^verbatim>\<open>"A"\<close> nor the secondary id \<^verbatim>\<open>"B"\<close>, the statement asks for an
  alert, and the button is reported state 1.
\<close>

theorem Set_button_never_alerts_counterexample:
  "GetDefaultAudioDeviceID (desk_os ''Z'') OUTPUT DEFAULT = ''Z''
   \<and> VolatilePrimaryID (desk_os ''Z'') desk_settings = ''A''
   \<and> VolatileSecondaryID (desk_os ''Z'') desk_settings = ''B''
   \<and> reconcile_as_stated (sample_world (desk_os ''Z'') WIN32) desk_settings ''Z'' ''ctx''
       = [ShowAlertForContext ''ctx'']
   \<and> UpdateState (sample_world (desk_os ''Z'') WIN32) ''ctx'' [] set_button_shown
       = (set_button_shown, [SetState 1 ''ctx''])"
  by code_simp

section \<open>Claim C5: a target that is not connected\<close>

text \<open>
  C5. For every activation whose target id is not empty and whose target device is not
  Connected, \<^verbatim>\<open>KeyUpForAction\<close> shows an alert and sets no default device; for the Set
  action it first sets the reported state to 1, for any other action it sends no state.
\<close>

theorem KeyUpForAction_disconnected_target:
  assumes "contains inPayload ''settings''"
    and "KeyUp_settings w inContext inPayload p = Returned p' sent"
    and "bs = settings (button_at w p' inContext)"
    and "reportedState = GetIntByName w inPayload ''state''"
    and "targetId = target_id w (target_slot inAction reportedState) bs"
    and "targetId \<noteq> []"
    and "GetAudioDeviceState (audio_os w) targetId \<noteq> CONNECTED"
  shows "KeyUpForAction w inAction inContext inPayload inDeviceID p =
           Returned p'
             (sent @ (if inAction = SET_ACTION_ID then [SetState 1 inContext] else [])
              @ [ShowAlertForContext inContext])
       \<and> \<not> list_ex is_SetDefaultAudioDeviceID
             (sent_by (KeyUpForAction w inAction inContext inPayload inDeviceID p))
       \<and> (inAction \<noteq> SET_ACTION_ID \<longrightarrow>
            \<not> list_ex is_SetState
                (sent_by (KeyUpForAction w inAction inContext inPayload inDeviceID p)))"
proof -
  have out: "KeyUpForAction w inAction inContext inPayload inDeviceID p =
           Returned p'
             (sent @ (if inAction = SET_ACTION_ID then [SetState 1 inContext] else [])
              @ [ShowAlertForContext inContext])"
    using assms(6,7)
    unfolding KeyUpForAction_switch [OF assms(1,2)] KeyUp_switch_slot assms(3-5)
    by (simp add: Let_def)
  from KeyUp_settings_sent [OF assms(2)]
  have quiet: "\<not> list_ex is_SetDefaultAudioDeviceID sent \<and> \<not> list_ex is_SetState sent"
    by (auto simp add: is_SetDefaultAudioDeviceID_def is_SetState_def)
  show ?thesis
    unfolding out using quiet
    by (simp add: sent_by_def is_SetDefaultAudioDeviceID_def is_SetState_def)
qed

theorem KeyUpForAction_disconnected_target_witness:
  "contains (full_payload 0) ''settings''
   \<and> GetAudioDeviceState unplugged_os ''A'' = DISCONNECTED
   \<and> KeyUpForAction (sample_world unplugged_os WIN32) SET_ACTION_ID ''ctx'' (full_payload 0)
         ''deck'' set_button_shown
       = Returned set_button_shown [SetState 1 ''ctx'', ShowAlertForContext ''ctx'']
   \<and> KeyUpForAction (sample_world unplugged_os WIN32) TOGGLE_ACTION_ID ''ctx'' (full_payload 1)
         ''deck'' toggle_button_shown
       = Returned toggle_button_shown [ShowAlertForContext ''ctx'']"
proof -
  let ?w = "sample_world unplugged_os WIN32"
  let ?set = "target_id ?w (target_slot SET_ACTION_ID (GetIntByName ?w (full_payload 0) ''state''))
                (settings (button_at ?w set_button_shown ''ctx''))"
  let ?toggle = "target_id ?w (target_slot TOGGLE_ACTION_ID (GetIntByName ?w (full_payload 1) ''state''))
                   (settings (button_at ?w toggle_button_shown ''ctx''))"
  have h1: "contains (full_payload 0) ''settings''"
    by code_simp
  have h2: "KeyUp_settings ?w ''ctx'' (full_payload 0) set_button_shown = Returned set_button_shown []"
    by code_simp
  have h6: "?set \<noteq> []"
    by code_simp
  have h7: "GetAudioDeviceState (audio_os ?w) ?set \<noteq> CONNECTED"
    by code_simp
  have t1: "contains (full_payload 1) ''settings''"
    by code_simp
  have t2: "KeyUp_settings ?w ''ctx'' (full_payload 1) toggle_button_shown
            = Returned toggle_button_shown []"
    by code_simp
  have t6: "?toggle \<noteq> []"
    by code_simp
  have t7: "GetAudioDeviceState (audio_os ?w) ?toggle \<noteq> CONNECTED"
    by code_simp
  have gone: "GetAudioDeviceState unplugged_os ''A'' = DISCONNECTED"
    by code_simp
  have other: "TOGGLE_ACTION_ID \<noteq> SET_ACTION_ID"
    by code_simp
  from KeyUpForAction_disconnected_target [OF h1 h2 refl refl refl h6 h7]
    KeyUpForAction_disconnected_target [OF t1 t2 refl refl refl t6 t7]
  show ?thesis
    using h1 gone other by simp
qed

section \<open>Lemmas about decoding\<close>

lemma bindE_Inr: "bindE r f = Inr y \<longleftrightarrow> (\<exists>x. r = Inr x \<and> f x = Inr y)"
  by (cases r) (simp_all add: bindE_def)

lemma contains_at_key: "contains j key \<longleftrightarrow> (\<exists>v. at_key j key = Inr v)"
  by (cases j) (auto simp add: contains_def at_key_def split: option.splits)

lemma member_is_at: "member_is j key holds \<longleftrightarrow> (\<exists>v. at_key j key = Inr v \<and> holds v)"
  by (cases "at_key j key") (simp_all add: member_is_def)

lemma is_boolean_get: "is_boolean v \<longleftrightarrow> (\<exists>b. get_bool v = Inr b)"
  by (cases v) (simp_all add: is_boolean_def get_bool_def)

lemma is_string_get: "is_string v \<longleftrightarrow> (\<exists>s. get_string v = Inr s)"
  by (cases v) (simp_all add: is_string_def get_string_def)

lemma converts_Inr: "converts conv v \<longleftrightarrow> (\<exists>x. conv v = Inr x)"
  by (cases "conv v") (simp_all add: converts_def)

subsection \<open>The steps of the hotkey decoder\<close>

lemma read_enabled_kept:
  "read_enabled j hk = Inr hk' \<Longrightarrow>
   ctrl hk' = ctrl hk \<and> alt hk' = alt hk \<and> shift hk' = shift hk \<and> win hk' = win hk
   \<and> keyCode hk' = keyCode hk
   \<and> (\<not> contains j ''enabled'' \<and> \<not> contains j ''hotkeyEnabled'' \<longrightarrow> enabled hk' = enabled hk)"
  by (auto simp add: read_enabled_def bindE_Inr split: if_splits)

lemma read_ctrl_kept:
  "read_ctrl j hk = Inr hk' \<Longrightarrow>
   enabled hk' = enabled hk \<and> alt hk' = alt hk \<and> shift hk' = shift hk \<and> win hk' = win hk
   \<and> keyCode hk' = keyCode hk
   \<and> (\<not> contains j ''ctrl'' \<and> \<not> contains j ''hotkeyCtrl'' \<longrightarrow> ctrl hk' = ctrl hk)"
  by (auto simp add: read_ctrl_def bindE_Inr split: if_splits)

lemma read_alt_kept:
  "read_alt j hk = Inr hk' \<Longrightarrow>
   enabled hk' = enabled hk \<and> ctrl hk' = ctrl hk \<and> shift hk' = shift hk \<and> win hk' = win hk
   \<and> keyCode hk' = keyCode hk
   \<and> (\<not> contains j ''alt'' \<and> \<not> contains j ''hotkeyAlt'' \<longrightarrow> alt hk' = alt hk)"
  by (auto simp add: read_alt_def bindE_Inr split: if_splits)

lemma read_shift_kept:
  "read_shift j hk = Inr hk' \<Longrightarrow>
   enabled hk' = enabled hk \<and> ctrl hk' = ctrl hk \<and> alt hk' = alt hk \<and> win hk' = win hk
   \<and> keyCode hk' = keyCode hk
   \<and> (\<not> contains j ''shift'' \<and> \<not> contains j ''hotkeyShift'' \<longrightarrow> shift hk' = shift hk)"
  by (auto simp add: read_shift_def bindE_Inr split: if_splits)

lemma read_win_kept:
  "read_win j hk = Inr hk' \<Longrightarrow>
   enabled hk' = enabled hk \<and> ctrl hk' = ctrl hk \<and> alt hk' = alt hk \<and> shift hk' = shift hk
   \<and> keyCode hk' = keyCode hk
   \<and> (\<not> contains j ''win'' \<and> \<not> contains j ''hotkeyWin'' \<longrightarrow> win hk' = win hk)"
  by (auto simp add: read_win_def bindE_Inr split: if_splits)

lemma read_keyCode_kept:
  "read_keyCode j hk = Inr hk' \<Longrightarrow>
   enabled hk' = enabled hk \<and> ctrl hk' = ctrl hk \<and> alt hk' = alt hk \<and> shift hk' = shift hk
   \<and> win hk' = win hk
   \<and> (\<not> contains j ''keyCode'' \<and> \<not> contains j ''hotkeyKey'' \<longrightarrow> keyCode hk' = keyCode hk)"
  by (auto simp add: read_keyCode_def bindE_Inr split: if_splits)

lemma from_json_HotkeyConfig_missing:
  assumes "from_json_HotkeyConfig h hk = Inr hk'"
  shows "(\<not> contains h ''enabled'' \<and> \<not> contains h ''hotkeyEnabled'' \<longrightarrow> enabled hk' = enabled hk)
       \<and> (\<not> contains h ''ctrl'' \<and> \<not> contains h ''hotkeyCtrl'' \<longrightarrow> ctrl hk' = ctrl hk)
       \<and> (\<not> contains h ''alt'' \<and> \<not> contains h ''hotkeyAlt'' \<longrightarrow> alt hk' = alt hk)
       \<and> (\<not> contains h ''shift'' \<and> \<not> contains h ''hotkeyShift'' \<longrightarrow> shift hk' = shift hk)
       \<and> (\<not> contains h ''win'' \<and> \<not> contains h ''hotkeyWin'' \<longrightarrow> win hk' = win hk)
       \<and> (\<not> contains h ''keyCode'' \<and> \<not> contains h ''hotkeyKey'' \<longrightarrow> keyCode hk' = keyCode hk)"
proof -
  from assms obtain hk1 hk2 hk3 hk4 hk5 where
    s1: "read_enabled h hk = Inr hk1" and s2: "read_ctrl h hk1 = Inr hk2"
    and s3: "read_alt h hk2 = Inr hk3" and s4: "read_shift h hk3 = Inr hk4"
    and s5: "read_win h hk4 = Inr hk5" and s6: "read_keyCode h hk5 = Inr hk'"
    unfolding from_json_HotkeyConfig_def bindE_Inr by blast
  note k = read_enabled_kept [OF s1] read_ctrl_kept [OF s2] read_alt_kept [OF s3]
    read_shift_kept [OF s4] read_win_kept [OF s5] read_keyCode_kept [OF s6]
  show ?thesis
    using k by simp
qed

lemma read_bool_step:
  "present_is h key alias is_boolean \<Longrightarrow>
   \<exists>b. (if contains h key then bindE (bindE (at_key h key) get_bool) (\<lambda>b. Inr (upd b))
        else if contains h alias then bindE (bindE (at_key h alias) get_bool) (\<lambda>b. Inr (upd b))
        else Inr hk) = Inr b"
  by (auto simp add: present_is_def member_is_at is_boolean_get bindE_def)

lemma read_string_step:
  "present_is h key alias is_string \<Longrightarrow>
   \<exists>b. (if contains h key then bindE (bindE (at_key h key) get_string) (\<lambda>b. Inr (upd b))
        else if contains h alias then bindE (bindE (at_key h alias) get_string) (\<lambda>b. Inr (upd b))
        else Inr hk) = Inr b"
  by (auto simp add: present_is_def member_is_at is_string_get bindE_def)

lemma from_json_HotkeyConfig_readable:
  assumes "hotkey_readable h"
  shows "\<exists>hk'. from_json_HotkeyConfig h hk = Inr hk'"
proof -
  from assms have r: "present_is h ''enabled'' ''hotkeyEnabled'' is_boolean"
    "present_is h ''ctrl'' ''hotkeyCtrl'' is_boolean"
    "present_is h ''alt'' ''hotkeyAlt'' is_boolean"
    "present_is h ''shift'' ''hotkeyShift'' is_boolean"
    "present_is h ''win'' ''hotkeyWin'' is_boolean"
    "present_is h ''keyCode'' ''hotkeyKey'' is_string"
    by (simp_all add: hotkey_readable_def)
  obtain hk1 where s1: "read_enabled h hk = Inr hk1"
    unfolding read_enabled_def using read_bool_step [OF r(1), where upd = "\<lambda>b. hk\<lparr>enabled := b\<rparr>" and hk = hk] by blast
  obtain hk2 where s2: "read_ctrl h hk1 = Inr hk2"
    unfolding read_ctrl_def using read_bool_step [OF r(2), where upd = "\<lambda>b. hk1\<lparr>ctrl := b\<rparr>" and hk = hk1] by blast
  obtain hk3 where s3: "read_alt h hk2 = Inr hk3"
    unfolding read_alt_def using read_bool_step [OF r(3), where upd = "\<lambda>b. hk2\<lparr>alt := b\<rparr>" and hk = hk2] by blast
  obtain hk4 where s4: "read_shift h hk3 = Inr hk4"
    unfolding read_shift_def using read_bool_step [OF r(4), where upd = "\<lambda>b. hk3\<lparr>shift := b\<rparr>" and hk = hk3] by blast
  obtain hk5 where s5: "read_win h hk4 = Inr hk5"
    unfolding read_win_def using read_bool_step [OF r(5), where upd = "\<lambda>b. hk4\<lparr>win := b\<rparr>" and hk = hk4] by blast
  obtain hk6 where s6: "read_keyCode h hk5 = Inr hk6"
    unfolding read_keyCode_def using read_string_step [OF r(6), where upd = "\<lambda>b. hk5\<lparr>keyCode := b\<rparr>" and hk = hk5] by blast
  show ?thesis
    by (simp add: from_json_HotkeyConfig_def bindE_Inr s1 s2 s3 s4 s5 s6)
qed

subsection \<open>The steps of the settings decoder\<close>

lemma read_direction_kept:
  "read_direction c j bs = Inr bs' \<Longrightarrow>
   bindE (at_key j ''direction'') (direction_from_json c) = Inr (direction bs')
   \<and> role bs' = role bs \<and> primaryDevice bs' = primaryDevice bs
   \<and> secondaryDevice bs' = secondaryDevice bs \<and> matchStrategy bs' = matchStrategy bs
   \<and> primaryHotkey bs' = primaryHotkey bs \<and> secondaryHotkey bs' = secondaryHotkey bs"
  by (auto simp add: read_direction_def bindE_Inr)

lemma read_role_kept:
  "read_role c j bs = Inr bs' \<Longrightarrow>
   direction bs' = direction bs \<and> primaryDevice bs' = primaryDevice bs
   \<and> secondaryDevice bs' = secondaryDevice bs \<and> matchStrategy bs' = matchStrategy bs
   \<and> primaryHotkey bs' = primaryHotkey bs \<and> secondaryHotkey bs' = secondaryHotkey bs
   \<and> (\<not> contains j ''role'' \<longrightarrow> role bs' = role bs)"
  by (auto simp add: read_role_def bindE_Inr split: if_splits)

lemma read_primary_kept:
  "read_primary c j bs = Inr bs' \<Longrightarrow>
   direction bs' = direction bs \<and> role bs' = role bs
   \<and> secondaryDevice bs' = secondaryDevice bs \<and> matchStrategy bs' = matchStrategy bs
   \<and> primaryHotkey bs' = primaryHotkey bs \<and> secondaryHotkey bs' = secondaryHotkey bs
   \<and> (\<not> contains j ''primary'' \<longrightarrow> primaryDevice bs' = primaryDevice bs)"
  by (auto simp add: read_primary_def bindE_Inr split: if_splits)

lemma read_secondary_kept:
  "read_secondary c j bs = Inr bs' \<Longrightarrow>
   direction bs' = direction bs \<and> role bs' = role bs
   \<and> primaryDevice bs' = primaryDevice bs \<and> matchStrategy bs' = matchStrategy bs
   \<and> primaryHotkey bs' = primaryHotkey bs \<and> secondaryHotkey bs' = secondaryHotkey bs
   \<and> (\<not> contains j ''secondary'' \<longrightarrow> secondaryDevice bs' = secondaryDevice bs)"
  by (auto simp add: read_secondary_def bindE_Inr split: if_splits)

lemma read_matchStrategy_kept:
  "read_matchStrategy j bs = Inr bs' \<Longrightarrow>
   direction bs' = direction bs \<and> role bs' = role bs
   \<and> primaryDevice bs' = primaryDevice bs \<and> secondaryDevice bs' = secondaryDevice bs
   \<and> primaryHotkey bs' = primaryHotkey bs \<and> secondaryHotkey bs' = secondaryHotkey bs
   \<and> (\<not> contains j ''matchStrategy'' \<longrightarrow> matchStrategy bs' = matchStrategy bs)"
  by (auto simp add: read_matchStrategy_def bindE_Inr split: if_splits)

lemma read_primaryHotkey_kept:
  "read_primaryHotkey j bs = Inr bs' \<Longrightarrow>
   direction bs' = direction bs \<and> role bs' = role bs
   \<and> primaryDevice bs' = primaryDevice bs \<and> secondaryDevice bs' = secondaryDevice bs
   \<and> matchStrategy bs' = matchStrategy bs \<and> secondaryHotkey bs' = secondaryHotkey bs
   \<and> (\<not> contains j ''primaryHotkey'' \<and> \<not> contains j ''hotkey'' \<longrightarrow>
        primaryHotkey bs' = primaryHotkey bs)"
  by (auto simp add: read_primaryHotkey_def bindE_Inr split: if_splits)

lemma read_secondaryHotkey_kept:
  "read_secondaryHotkey j bs = Inr bs' \<Longrightarrow>
   direction bs' = direction bs \<and> role bs' = role bs
   \<and> primaryDevice bs' = primaryDevice bs \<and> secondaryDevice bs' = secondaryDevice bs
   \<and> matchStrategy bs' = matchStrategy bs \<and> primaryHotkey bs' = primaryHotkey bs
   \<and> (\<not> contains j ''secondaryHotkey'' \<longrightarrow> secondaryHotkey bs' = secondaryHotkey bs)"
  by (auto simp add: read_secondaryHotkey_def bindE_Inr split: if_splits)

lemma from_json_ButtonSettings_steps:
  assumes "contains j ''direction''" and "from_json_ButtonSettings c j bs = Inr bs'"
  obtains bs1 bs2 bs3 bs4 bs5 bs6 where
    "read_direction c j bs = Inr bs1" "read_role c j bs1 = Inr bs2"
    "read_primary c j bs2 = Inr bs3" "read_secondary c j bs3 = Inr bs4"
    "read_matchStrategy j bs4 = Inr bs5" "read_primaryHotkey j bs5 = Inr bs6"
    "read_secondaryHotkey j bs6 = Inr bs'"
  using assms by (auto simp add: from_json_ButtonSettings_def bindE_Inr)

lemma from_json_ButtonSettings_missing:
  assumes "contains j ''direction''" and "from_json_ButtonSettings c j bs = Inr bs'"
  shows "bindE (at_key j ''direction'') (direction_from_json c) = Inr (direction bs')
       \<and> (\<not> contains j ''role'' \<longrightarrow> role bs' = role bs)
       \<and> (\<not> contains j ''primary'' \<longrightarrow> primaryDevice bs' = primaryDevice bs)
       \<and> (\<not> contains j ''secondary'' \<longrightarrow> secondaryDevice bs' = secondaryDevice bs)
       \<and> (\<not> contains j ''matchStrategy'' \<longrightarrow> matchStrategy bs' = matchStrategy bs)
       \<and> (\<not> contains j ''primaryHotkey'' \<and> \<not> contains j ''hotkey'' \<longrightarrow>
            primaryHotkey bs' = primaryHotkey bs)
       \<and> (\<not> contains j ''secondaryHotkey'' \<longrightarrow> secondaryHotkey bs' = secondaryHotkey bs)"
proof -
  from assms obtain bs1 bs2 bs3 bs4 bs5 bs6 where
    s1: "read_direction c j bs = Inr bs1" and s2: "read_role c j bs1 = Inr bs2"
    and s3: "read_primary c j bs2 = Inr bs3" and s4: "read_secondary c j bs3 = Inr bs4"
    and s5: "read_matchStrategy j bs4 = Inr bs5" and s6: "read_primaryHotkey j bs5 = Inr bs6"
    and s7: "read_secondaryHotkey j bs6 = Inr bs'"
    by (rule from_json_ButtonSettings_steps)
  note k = read_direction_kept [OF s1] read_role_kept [OF s2] read_primary_kept [OF s3]
    read_secondary_kept [OF s4] read_matchStrategy_kept [OF s5] read_primaryHotkey_kept [OF s6]
    read_secondaryHotkey_kept [OF s7]
  show ?thesis
    using k by simp
qed

lemma read_direction_readable:
  "member_is j ''direction'' (converts (direction_from_json c)) \<Longrightarrow>
   \<exists>bs'. read_direction c j bs = Inr bs'"
  by (auto simp add: read_direction_def member_is_at converts_Inr bindE_def)

lemma read_role_readable:
  "present_is j ''role'' ''role'' (converts (role_from_json c)) \<Longrightarrow>
   \<exists>bs'. read_role c j bs = Inr bs'"
  by (auto simp add: read_role_def present_is_def member_is_at converts_Inr bindE_def)

lemma read_primary_readable:
  "present_is j ''primary'' ''primary'' (device_readable c) \<Longrightarrow>
   \<exists>bs'. read_primary c j bs = Inr bs'"
  by (auto simp add: read_primary_def present_is_def member_is_at device_readable_def
      converts_Inr is_string_get bindE_def)

lemma read_secondary_readable:
  "present_is j ''secondary'' ''secondary'' (device_readable c) \<Longrightarrow>
   \<exists>bs'. read_secondary c j bs = Inr bs'"
  by (auto simp add: read_secondary_def present_is_def member_is_at device_readable_def
      converts_Inr is_string_get bindE_def)

lemma read_matchStrategy_readable: "\<exists>bs'. read_matchStrategy j bs = Inr bs'"
  by (auto simp add: read_matchStrategy_def contains_at_key bindE_def)

lemma HotkeyConfig_of_json_readable:
  "hotkey_readable h \<Longrightarrow> \<exists>hk. HotkeyConfig_of_json h = Inr hk"
  unfolding HotkeyConfig_of_json_def by (rule from_json_HotkeyConfig_readable)

lemma read_primaryHotkey_readable:
  assumes "present_is j ''primaryHotkey'' ''hotkey'' hotkey_readable"
  shows "\<exists>bs'. read_primaryHotkey j bs = Inr bs'"
  using assms
  by (auto simp add: read_primaryHotkey_def present_is_def member_is_at bindE_def
      dest!: HotkeyConfig_of_json_readable)

lemma read_secondaryHotkey_readable:
  assumes "present_is j ''secondaryHotkey'' ''secondaryHotkey'' hotkey_readable"
  shows "\<exists>bs'. read_secondaryHotkey j bs = Inr bs'"
  using assms
  by (auto simp add: read_secondaryHotkey_def present_is_def member_is_at bindE_def
      dest!: HotkeyConfig_of_json_readable)

lemma from_json_ButtonSettings_readable:
  assumes "contains j ''direction''" and "settings_readable c j"
  shows "\<exists>bs'. from_json_ButtonSettings c j bs = Inr bs'"
proof -
  from assms(2) have r: "member_is j ''direction'' (converts (direction_from_json c))"
    "present_is j ''role'' ''role'' (converts (role_from_json c))"
    "present_is j ''primary'' ''primary'' (device_readable c)"
    "present_is j ''secondary'' ''secondary'' (device_readable c)"
    "present_is j ''primaryHotkey'' ''hotkey'' hotkey_readable"
    "present_is j ''secondaryHotkey'' ''secondaryHotkey'' hotkey_readable"
    by (simp_all add: settings_readable_def)
  obtain bs1 where s1: "read_direction c j bs = Inr bs1"
    using read_direction_readable [OF r(1)] by blast
  obtain bs2 where s2: "read_role c j bs1 = Inr bs2"
    using read_role_readable [OF r(2)] by blast
  obtain bs3 where s3: "read_primary c j bs2 = Inr bs3"
    using read_primary_readable [OF r(3)] by blast
  obtain bs4 where s4: "read_secondary c j bs3 = Inr bs4"
    using read_secondary_readable [OF r(4)] by blast
  obtain bs5 where s5: "read_matchStrategy j bs4 = Inr bs5"
    using read_matchStrategy_readable by blast
  obtain bs6 where s6: "read_primaryHotkey j bs5 = Inr bs6"
    using read_primaryHotkey_readable [OF r(5)] by blast
  obtain bs7 where s7: "read_secondaryHotkey j bs6 = Inr bs7"
    using read_secondaryHotkey_readable [OF r(6)] by blast
  show ?thesis
    using assms(1) by (simp add: from_json_ButtonSettings_def bindE_Inr s1 s2 s3 s4 s5 s6 s7)
qed

section \<open>Claim C6: decoding fails softly\<close>

text \<open>
  C6. For every blob \<open>j\<close> and every value \<open>bs\<close> that \<^verbatim>\<open>from_json\<close> is applied to (the
  default-constructed value, when a blob is converted): without a \<^verbatim>\<open>direction\<close> member
  the decoder returns \<open>bs\<close> unchanged, whatever else the blob holds. With one, a member
  that is missing raises nothing, the decoder returns whenever the members that are
  present hold values of their kinds, and in its result the direction is the one decoded
  from the blob and every member that is missing (with its legacy alias, where it has one)
  has the value it had in \<open>bs\<close>, the default. The same holds for the members of a hotkey.
\<close>

theorem from_json_fails_softly:
  "(\<not> contains j ''direction'' \<longrightarrow> from_json_ButtonSettings c j bs = Inr bs)
   \<and> (contains j ''direction'' \<and> settings_readable c j \<longrightarrow>
        (\<exists>bs'. from_json_ButtonSettings c j bs = Inr bs'))
   \<and> (\<forall>bs'. contains j ''direction'' \<and> from_json_ButtonSettings c j bs = Inr bs' \<longrightarrow>
        bindE (at_key j ''direction'') (direction_from_json c) = Inr (direction bs')
        \<and> (\<not> contains j ''role'' \<longrightarrow> role bs' = role bs)
        \<and> (\<not> contains j ''primary'' \<longrightarrow> primaryDevice bs' = primaryDevice bs)
        \<and> (\<not> contains j ''secondary'' \<longrightarrow> secondaryDevice bs' = secondaryDevice bs)
        \<and> (\<not> contains j ''matchStrategy'' \<longrightarrow> matchStrategy bs' = matchStrategy bs)
        \<and> (\<not> contains j ''primaryHotkey'' \<and> \<not> contains j ''hotkey'' \<longrightarrow>
             primaryHotkey bs' = primaryHotkey bs)
        \<and> (\<not> contains j ''secondaryHotkey'' \<longrightarrow> secondaryHotkey bs' = secondaryHotkey bs))
   \<and> (hotkey_readable h \<longrightarrow> (\<exists>hk'. from_json_HotkeyConfig h hk = Inr hk'))
   \<and> (\<forall>hk'. from_json_HotkeyConfig h hk = Inr hk' \<longrightarrow>
        (\<not> contains h ''enabled'' \<and> \<not> contains h ''hotkeyEnabled'' \<longrightarrow> enabled hk' = enabled hk)
        \<and> (\<not> contains h ''ctrl'' \<and> \<not> contains h ''hotkeyCtrl'' \<longrightarrow> ctrl hk' = ctrl hk)
        \<and> (\<not> contains h ''alt'' \<and> \<not> contains h ''hotkeyAlt'' \<longrightarrow> alt hk' = alt hk)
        \<and> (\<not> contains h ''shift'' \<and> \<not> contains h ''hotkeyShift'' \<longrightarrow> shift hk' = shift hk)
        \<and> (\<not> contains h ''win'' \<and> \<not> contains h ''hotkeyWin'' \<longrightarrow> win hk' = win hk)
        \<and> (\<not> contains h ''keyCode'' \<and> \<not> contains h ''hotkeyKey'' \<longrightarrow> keyCode hk' = keyCode hk))"
proof -
  have noop: "\<not> contains j ''direction'' \<longrightarrow> from_json_ButtonSettings c j bs = Inr bs"
    by (simp add: from_json_ButtonSettings_def)
  have returns: "contains j ''direction'' \<and> settings_readable c j \<longrightarrow>
        (\<exists>bs'. from_json_ButtonSettings c j bs = Inr bs')"
    using from_json_ButtonSettings_readable by blast
  have hk_returns: "hotkey_readable h \<longrightarrow> (\<exists>hk'. from_json_HotkeyConfig h hk = Inr hk')"
    using from_json_HotkeyConfig_readable by blast
  show ?thesis
    using noop returns hk_returns from_json_ButtonSettings_missing [of j c bs]
      from_json_HotkeyConfig_missing [of h hk]
    by blast
qed


theorem from_json_fails_softly_witness:
  "\<not> contains no_direction_json ''direction''
   \<and> from_json_ButtonSettings sample_codec no_direction_json desk_settings = Inr desk_settings
   \<and> contains legacy_settings_json ''direction''
   \<and> settings_readable sample_codec legacy_settings_json
   \<and> ButtonSettings_of_json sample_codec legacy_settings_json
       = Inr ((default_ButtonSettings sample_codec)
               \<lparr>direction := OUTPUT,
                primaryHotkey := default_HotkeyConfig\<lparr>enabled := True, keyCode := ''A''\<rparr>\<rparr>)"
proof -
  have n: "\<not> contains no_direction_json ''direction''"
    by code_simp
  have d: "contains legacy_settings_json ''direction''"
    by code_simp
  have r: "settings_readable sample_codec legacy_settings_json"
    by code_simp
  have v: "from_json_ButtonSettings sample_codec legacy_settings_json (default_ButtonSettings sample_codec)
       = Inr ((default_ButtonSettings sample_codec)
               \<lparr>direction := OUTPUT,
                primaryHotkey := default_HotkeyConfig\<lparr>enabled := True, keyCode := ''A''\<rparr>\<rparr>)"
    by code_simp
  from from_json_fails_softly [of no_direction_json sample_codec desk_settings]
    from_json_fails_softly [of legacy_settings_json sample_codec "default_ButtonSettings sample_codec"]
  show ?thesis
    using n d r v by (simp add: ButtonSettings_of_json_def)
qed

section \<open>Claim C7: a hotkey whose key name does not resolve\<close>

text \<open>
  C7 holds on the Windows branch, where \<^verbatim>\<open>std::stoi\<close> is guarded: the call returns for
  every hotkey.
\<close>

lemma TriggerHotkey_WIN32_returns:
  "built_for w = WIN32 \<Longrightarrow> \<exists>keys. TriggerHotkey w hotkey = Inr keys"
  by (simp add: TriggerHotkey_def Let_def)

text \<open>
  C7 fails on the macOS branch. The key name \<^verbatim>\<open>"Fx"\<close> is no function key;
  \<^verbatim>\<open>std::stoi("x")\<close> raises and nothing catches it: the exception leaves
  \<^verbatim>\<open>TriggerHotkey\<close> and, after the default device was set, \<^verbatim>\<open>KeyUpForAction\<close>. The same
  hotkey is a silent no-op on the Windows branch.
\<close>

theorem TriggerHotkey_APPLE_raises:
  "TriggerHotkey (sample_world (desk_os ''A'') APPLE) unparsable_hotkey = Inl invalid_argument
   \<and> TriggerHotkey (sample_world (desk_os ''A'') WIN32) unparsable_hotkey = Inr []
   \<and> KeyUpForAction (sample_world (desk_os ''A'') APPLE) TOGGLE_ACTION_ID ''ctx'' unparsable_payload
        ''deck'' toggle_button_shown
      = Raised invalid_argument
          (store_button ''ctx''
             \<lparr>action = TOGGLE_ACTION_ID, contextID = ''ctx'',
              settings = desk_settings\<lparr>secondaryHotkey := unparsable_hotkey\<rparr>\<rparr>
             toggle_button_shown)
          [SetDefaultAudioDeviceID OUTPUT DEFAULT ''B'']"
  by code_simp

theorem TriggerHotkey_APPLE_raises_witness:
  "enabled unparsable_hotkey
   \<and> keyCode unparsable_hotkey = ''Fx''
   \<and> stoi ''x'' = Inl invalid_argument
   \<and> TriggerHotkey (sample_world (desk_os ''A'') APPLE) unparsable_hotkey = Inl invalid_argument"
proof -
  have "enabled unparsable_hotkey" and "keyCode unparsable_hotkey = ''Fx''"
    by (simp_all add: unparsable_hotkey_def)
  moreover have "stoi ''x'' = Inl invalid_argument"
    by code_simp
  ultimately show ?thesis
    using TriggerHotkey_APPLE_raises by simp
qed

section \<open>Lemmas about encoding what was decoded\<close>

lemma at_key_JObject:
  "at_key (JObject members) key =
     (case map_of members key of Some v \<Rightarrow> Inr v | None \<Rightarrow> Inl out_of_range)"
  by (simp add: at_key_def)

lemma is_boolean_iff: "is_boolean v \<longleftrightarrow> (\<exists>b. v = JBool b)"
  by (cases v) (simp_all add: is_boolean_def)

lemma is_string_iff: "is_string v \<longleftrightarrow> (\<exists>s. v = JString s)"
  by (cases v) (simp_all add: is_string_def)

lemma round_trips_Inr: "round_trips conv back v \<longleftrightarrow> (\<exists>x. conv v = Inr x \<and> back x = v)"
  by (cases "conv v") (simp_all add: round_trips_def)

lemma canonical_hotkey_round_trip:
  assumes "canonical_hotkey h"
  shows "\<exists>hk. HotkeyConfig_of_json h = Inr hk
            \<and> (\<forall>key \<in> set hotkey_members. at_key (to_json_HotkeyConfig hk) key = at_key h key)"
proof -
  from assms obtain b1 b2 b3 b4 b5 s where
    m: "at_key h ''enabled'' = Inr (JBool b1)" "at_key h ''ctrl'' = Inr (JBool b2)"
       "at_key h ''alt'' = Inr (JBool b3)" "at_key h ''shift'' = Inr (JBool b4)"
       "at_key h ''win'' = Inr (JBool b5)" "at_key h ''keyCode'' = Inr (JString s)"
    unfolding canonical_hotkey_def member_is_at is_boolean_iff is_string_iff by blast
  have s1: "read_enabled h hk = Inr (hk\<lparr>enabled := b1\<rparr>)" for hk
    by (simp add: read_enabled_def contains_at_key m bindE_def get_bool_def)
  have s2: "read_ctrl h hk = Inr (hk\<lparr>ctrl := b2\<rparr>)" for hk
    by (simp add: read_ctrl_def contains_at_key m bindE_def get_bool_def)
  have s3: "read_alt h hk = Inr (hk\<lparr>alt := b3\<rparr>)" for hk
    by (simp add: read_alt_def contains_at_key m bindE_def get_bool_def)
  have s4: "read_shift h hk = Inr (hk\<lparr>shift := b4\<rparr>)" for hk
    by (simp add: read_shift_def contains_at_key m bindE_def get_bool_def)
  have s5: "read_win h hk = Inr (hk\<lparr>win := b5\<rparr>)" for hk
    by (simp add: read_win_def contains_at_key m bindE_def get_bool_def)
  have s6: "read_keyCode h hk = Inr (hk\<lparr>keyCode := s\<rparr>)" for hk
    by (simp add: read_keyCode_def contains_at_key m bindE_def get_string_def)
  have "HotkeyConfig_of_json h =
        Inr \<lparr>enabled = b1, ctrl = b2, alt = b3, shift = b4, win = b5, keyCode = s\<rparr>"
    by (simp add: HotkeyConfig_of_json_def from_json_HotkeyConfig_def s1 s2 s3 s4 s5 s6
        bindE_def default_HotkeyConfig_def)
  then show ?thesis
    by (simp add: to_json_HotkeyConfig_def at_key_JObject hotkey_members_def m)
qed

section \<open>Claim C8: encoding a decoded blob\<close>

text \<open>
  C8, as amended. For every blob that holds every canonical member, with direction, role
  and the two devices as values that the conversions of \<^verbatim>\<open>audio_json.h\<close> read and write
  back unchanged (the devices as full descriptors, not as bare id strings), the match
  strategy as \<^verbatim>\<open>"ID"\<close> or \<^verbatim>\<open>"Fuzzy"\<close> and the two hotkeys with boolean flags and a
  string key: decoding returns, and encoding the result gives an object whose direction,
  role, primary, secondary and matchStrategy members and whose six members of each hotkey
  equal the blob's. The encoded object has the seven canonical members and each encoded
  hotkey its six canonical members, no legacy alias.
\<close>

theorem encode_decode_canonical:
  assumes "canonical_blob c blob"
  shows "\<exists>bs. ButtonSettings_of_json c blob = Inr bs
          \<and> (\<forall>key \<in> set plain_members.
                at_key (to_json_ButtonSettings c bs) key = at_key blob key)
          \<and> (\<forall>key \<in> set hotkey_members.
                hotkey_member (to_json_ButtonSettings c bs) ''primaryHotkey'' key
                = hotkey_member blob ''primaryHotkey'' key
                \<and> hotkey_member (to_json_ButtonSettings c bs) ''secondaryHotkey'' key
                  = hotkey_member blob ''secondaryHotkey'' key)
          \<and> member_names (to_json_ButtonSettings c bs)
              = plain_members @ [''primaryHotkey'', ''secondaryHotkey'']
          \<and> bindE (at_key (to_json_ButtonSettings c bs) ''primaryHotkey'') (\<lambda>h. Inr (member_names h))
              = Inr hotkey_members
          \<and> bindE (at_key (to_json_ButtonSettings c bs) ''secondaryHotkey'') (\<lambda>h. Inr (member_names h))
              = Inr hotkey_members"
proof -
  from assms obtain dv d rv r pv pd sv sd mv ph sh where
    dir: "at_key blob ''direction'' = Inr dv" "direction_from_json c dv = Inr d"
         "direction_to_json c d = dv"
    and rol: "at_key blob ''role'' = Inr rv" "role_from_json c rv = Inr r" "role_to_json c r = rv"
    and pri: "at_key blob ''primary'' = Inr pv" "\<not> is_string pv" "device_from_json c pv = Inr pd"
         "device_to_json c pd = pv"
    and sec: "at_key blob ''secondary'' = Inr sv" "\<not> is_string sv" "device_from_json c sv = Inr sd"
         "device_to_json c sd = sv"
    and mat: "at_key blob ''matchStrategy'' = Inr mv" "mv = JString ''ID'' \<or> mv = JString ''Fuzzy''"
    and phk: "at_key blob ''primaryHotkey'' = Inr ph" "canonical_hotkey ph"
    and shk: "at_key blob ''secondaryHotkey'' = Inr sh" "canonical_hotkey sh"
    unfolding canonical_blob_def member_is_at full_descriptor_def round_trips_Inr by blast
  from canonical_hotkey_round_trip [OF phk(2)] obtain phc where
    phc: "HotkeyConfig_of_json ph = Inr phc"
      "\<forall>key \<in> set hotkey_members. at_key (to_json_HotkeyConfig phc) key = at_key ph key"
    by blast
  from canonical_hotkey_round_trip [OF shk(2)] obtain shc where
    shc: "HotkeyConfig_of_json sh = Inr shc"
      "\<forall>key \<in> set hotkey_members. at_key (to_json_HotkeyConfig shc) key = at_key sh key"
    by blast
  have s1: "read_direction c blob bs = Inr (bs\<lparr>direction := d\<rparr>)" for bs
    by (simp add: read_direction_def dir bindE_def)
  have s2: "read_role c blob bs = Inr (bs\<lparr>role := r\<rparr>)" for bs
    by (simp add: read_role_def contains_at_key rol bindE_def)
  have s3: "read_primary c blob bs = Inr (bs\<lparr>primaryDevice := pd\<rparr>)" for bs
    by (simp add: read_primary_def contains_at_key pri bindE_def)
  have s4: "read_secondary c blob bs = Inr (bs\<lparr>secondaryDevice := sd\<rparr>)" for bs
    by (simp add: read_secondary_def contains_at_key sec bindE_def)
  have s5: "read_matchStrategy blob bs = Inr (bs\<lparr>matchStrategy := from_json_DeviceMatchStrategy mv\<rparr>)" for bs
    by (simp add: read_matchStrategy_def contains_at_key mat(1) bindE_def)
  have s6: "read_primaryHotkey blob bs = Inr (bs\<lparr>primaryHotkey := phc\<rparr>)" for bs
    by (simp add: read_primaryHotkey_def contains_at_key phk(1) phc(1) bindE_def)
  have s7: "read_secondaryHotkey blob bs = Inr (bs\<lparr>secondaryHotkey := shc\<rparr>)" for bs
    by (simp add: read_secondaryHotkey_def contains_at_key shk(1) shc(1) bindE_def)
  have strategy: "to_json_DeviceMatchStrategy (from_json_DeviceMatchStrategy mv) = mv"
    using mat(2) by (auto simp add: to_json_DeviceMatchStrategy_def from_json_DeviceMatchStrategy_def)
  let ?bs = "\<lparr>direction = d, role = r, primaryDevice = pd, secondaryDevice = sd,
              matchStrategy = from_json_DeviceMatchStrategy mv,
              primaryHotkey = phc, secondaryHotkey = shc\<rparr>"
  have decoded: "ButtonSettings_of_json c blob = Inr ?bs"
    by (simp add: ButtonSettings_of_json_def from_json_ButtonSettings_def contains_at_key dir(1)
        s1 s2 s3 s4 s5 s6 s7 bindE_def default_ButtonSettings_def)
  have plain: "\<forall>key \<in> set plain_members. at_key (to_json_ButtonSettings c ?bs) key = at_key blob key"
    by (simp add: plain_members_def to_json_ButtonSettings_def at_key_JObject dir rol pri sec mat(1)
        strategy)
  have hot: "\<forall>key \<in> set hotkey_members.
                hotkey_member (to_json_ButtonSettings c ?bs) ''primaryHotkey'' key
                = hotkey_member blob ''primaryHotkey'' key
                \<and> hotkey_member (to_json_ButtonSettings c ?bs) ''secondaryHotkey'' key
                  = hotkey_member blob ''secondaryHotkey'' key"
    using phc(2) shc(2)
    by (simp add: hotkey_member_def to_json_ButtonSettings_def at_key_JObject phk(1) shk(1) bindE_def)
  have names: "member_names (to_json_ButtonSettings c ?bs)
              = plain_members @ [''primaryHotkey'', ''secondaryHotkey'']"
    by (simp add: member_names_def to_json_ButtonSettings_def plain_members_def)
  have hnames: "bindE (at_key (to_json_ButtonSettings c ?bs) ''primaryHotkey'') (\<lambda>h. Inr (member_names h))
              = Inr hotkey_members"
    "bindE (at_key (to_json_ButtonSettings c ?bs) ''secondaryHotkey'') (\<lambda>h. Inr (member_names h))
              = Inr hotkey_members"
    by (simp_all add: to_json_ButtonSettings_def at_key_JObject bindE_def to_json_HotkeyConfig_def
        member_names_def hotkey_members_def)
  show ?thesis
    using decoded plain hot names hnames by blast
qed

theorem encode_decode_canonical_witness:
  "canonical_blob sample_codec (desk_settings_json (sample_device_to_json speakers) (sample_device_to_json headphones))
   \<and> ButtonSettings_of_json sample_codec
        (desk_settings_json (sample_device_to_json speakers) (sample_device_to_json headphones))
       = Inr desk_settings
   \<and> to_json_ButtonSettings sample_codec desk_settings
       = desk_settings_json (sample_device_to_json speakers) (sample_device_to_json headphones)"
proof -
  let ?blob = "desk_settings_json (sample_device_to_json speakers) (sample_device_to_json headphones)"
  have c: "canonical_blob sample_codec ?blob"
    by code_simp
  have d: "ButtonSettings_of_json sample_codec ?blob = Inr desk_settings"
    by code_simp
  have e: "to_json_ButtonSettings sample_codec desk_settings = ?blob"
    by code_simp
  from encode_decode_canonical [OF c] show ?thesis
    using c d e by simp
qed

text \<open>
  C8 as stated fails for a blob that names its primary device by a bare id string, which
  the persisted layout lists as a canonical form: the decoder stores the id, the encoder
  writes a full descriptor, and the member does not equal the string it was read from.
\<close>

theorem encode_decode_id_string_counterexample:
  "member_is (desk_settings_json (JString ''A'') (JString ''B'')) ''primary'' is_string
   \<and> bindE (ButtonSettings_of_json sample_codec (desk_settings_json (JString ''A'') (JString ''B'')))
        (\<lambda>bs. at_key (to_json_ButtonSettings sample_codec bs) ''primary'')
       = Inr (sample_device_to_json ((default_AudioDeviceInfo sample_codec)\<lparr>dev_id := ''A''\<rparr>))
   \<and> at_key (desk_settings_json (JString ''A'') (JString ''B'')) ''primary'' = Inr (JString ''A'')
   \<and> sample_device_to_json ((default_AudioDeviceInfo sample_codec)\<lparr>dev_id := ''A''\<rparr>) \<noteq> JString ''A''"
  by code_simp

section \<open>Claim C9: backfill of the device descriptors\<close>

text \<open>
  C9. For a registered button, \<^verbatim>\<open>FillButtonDeviceInfo\<close> replaces each of the two
  descriptors that has a non-empty id, an empty display name and a live device under that
  id in the provider's list for the descriptor's direction by that live record, leaves a
  descriptor that does not as it is, and sends the host the settings to persist exactly
  when one of the two was replaced. \<^verbatim>\<open>KeyUpForAction\<close> does so right after decoding the
  settings of the payload.
\<close>

theorem FillButtonDeviceInfo_backfill:
  assumes "map_of (mButtons p) context = Some button"
  shows "FillButtonDeviceInfo w context p =
           Returned
             (store_button context
                (button\<lparr>settings := backfilled_settings (audio_os w) (settings button)\<rparr>) p)
             (persist_signals w context (settings button))
       \<and> (\<forall>decoded.
            bindE (at_key inPayload ''settings'') (ButtonSettings_of_json (codec w)) = Inr decoded \<longrightarrow>
            KeyUp_settings w context inPayload p =
              Returned
                (store_button context
                   (button\<lparr>settings := backfilled_settings (audio_os w) decoded\<rparr>) p)
                (persist_signals w context decoded))
       \<and> (\<forall>d. \<not> needs_backfill (audio_os w) d \<longrightarrow> backfilled (audio_os w) d = d)
       \<and> (\<forall>d. needs_backfill (audio_os w) d \<longrightarrow>
              live_record (audio_os w) d = Some (backfilled (audio_os w) d))"
proof -
  have touched: "touch_button w context p = p"
    using assms by (simp add: touch_button_def button_at_def update_triv)
  have fill: "\<And>decoded. FillButtonDeviceInfo w context (store_button context (button\<lparr>settings := decoded\<rparr>) p) =
      Returned (store_button context (button\<lparr>settings := backfilled_settings (audio_os w) decoded\<rparr>) p)
        (persist_signals w context decoded)"
    by (simp add: FillButtonDeviceInfo_registered [OF map_of_store_button] store_button_twice)
  have here: "button_at w p context = button"
    using assms by (simp add: button_at_def)
  show ?thesis
    by (auto simp add: FillButtonDeviceInfo_registered [OF assms] KeyUp_settings_def touched here fill
        needs_backfill_def backfilled_def split: option.splits)
qed

theorem FillButtonDeviceInfo_backfill_witness:
  "map_of (mButtons set_button_shown) ''ctx''
     = Some \<lparr>action = SET_ACTION_ID, contextID = ''ctx'', settings = desk_settings\<rparr>
   \<and> bindE (at_key ids_only_payload ''settings'') (ButtonSettings_of_json sample_codec)
       = Inr (desk_settings\<lparr>primaryDevice := speakers\<lparr>interfaceName := [], endpointName := [], displayName := [], dev_state := UNKNOWN\<rparr>,
                secondaryDevice := default_AudioDeviceInfo sample_codec\<lparr>dev_id := ''B''\<rparr>,
                primaryHotkey := default_HotkeyConfig, secondaryHotkey := default_HotkeyConfig\<rparr>)
   \<and> sent_by (KeyUp_settings (sample_world (desk_os ''A'') WIN32) ''ctx'' ids_only_payload set_button_shown)
       = [SetSettings
            (to_json_ButtonSettings sample_codec
               (desk_settings\<lparr>secondaryDevice := default_AudioDeviceInfo sample_codec\<lparr>dev_id := ''B''\<rparr>,
                  primaryHotkey := default_HotkeyConfig, secondaryHotkey := default_HotkeyConfig\<rparr>))
            ''ctx'']
   \<and> FillButtonDeviceInfo (sample_world (desk_os ''A'') WIN32) ''ctx'' set_button_shown
       = Returned set_button_shown []"
proof -
  let ?w = "sample_world (desk_os ''A'') WIN32"
  let ?b = "\<lparr>action = SET_ACTION_ID, contextID = ''ctx'', settings = desk_settings\<rparr>"
  let ?decoded = "desk_settings\<lparr>primaryDevice := speakers\<lparr>interfaceName := [], endpointName := [], displayName := [], dev_state := UNKNOWN\<rparr>,
                secondaryDevice := default_AudioDeviceInfo sample_codec\<lparr>dev_id := ''B''\<rparr>,
                primaryHotkey := default_HotkeyConfig, secondaryHotkey := default_HotkeyConfig\<rparr>"
  have reg: "map_of (mButtons set_button_shown) ''ctx'' = Some ?b"
    by code_simp
  have cd: "codec ?w = sample_codec"
    by (simp add: sample_world_def)
  have dec: "bindE (at_key ids_only_payload ''settings'') (ButtonSettings_of_json (codec ?w)) = Inr ?decoded"
    by code_simp
  have s1: "persist_signals ?w ''ctx'' ?decoded = [SetSettings
            (to_json_ButtonSettings sample_codec
               (desk_settings\<lparr>secondaryDevice := default_AudioDeviceInfo sample_codec\<lparr>dev_id := ''B''\<rparr>,
                  primaryHotkey := default_HotkeyConfig, secondaryHotkey := default_HotkeyConfig\<rparr>))
            ''ctx'']"
    by code_simp
  have s2: "persist_signals ?w ''ctx'' desk_settings = []"
    by code_simp
  have s3: "store_button ''ctx''
              \<lparr>action = SET_ACTION_ID, contextID = ''ctx'',
               settings = backfilled_settings (audio_os ?w) desk_settings\<rparr> set_button_shown
            = set_button_shown"
    by code_simp
  from FillButtonDeviceInfo_backfill [OF reg, of ?w ids_only_payload]
  show ?thesis
    using reg dec by (simp add: s1 s2 s3 cd sent_by_def)
qed

section \<open>Claim C10: the key-down handler\<close>

text \<open>
  C10. For every action, context, payload and device id, \<^verbatim>\<open>KeyDownForAction\<close> returns
  with the plugin's buttons and visible contexts as they were and sends nothing: no state,
  no alert, no settings, no default device, no key.
\<close>

theorem KeyDownForAction_no_effect:
  "KeyDownForAction w inAction inContext inPayload inDeviceID p = Returned p []"
  by (simp add: KeyDownForAction_def)

end
